theory Spec2Isabelle
  imports Main
begin

section \<open>The HTTP layer: \<open>fetchWithRetry\<close> (api-module.js)\<close>

text \<open>
  A JavaScript exception is a value. The four constructors are the four ways in which
  the code of the API module can throw: \<open>fetch\<close> rejects (no network, CORS), the
  module's own \<open>new Error(`HTTP ${status}: ${statusText}`)\<close>, \<open>response.json()\<close>
  rejects (malformed body), and a property read on \<open>undefined\<close>.
\<close>

datatype js_error =
    NetworkError string
  | HttpError nat string
  | JsonError string
  | TypeError string

text \<open>
  The part of a Fetch API response the code reads. \<open>response.ok\<close> is, by the Fetch
  standard, true exactly for a status in the range 200 to 299.
\<close>

record 'a response =
  status :: nat
  statusText :: string
  json :: "js_error + 'a"

definition ok :: "'a response \<Rightarrow> bool" where
  "ok r = (200 \<le> status r \<and> status r \<le> 299)"

datatype 'a fetch_outcome = Rejected js_error | Resolved "'a response"

text \<open>The options object handed to \<open>fetch\<close>: the headers and the cache mode.\<close>

record fetch_options =
  headers :: "(string \<times> string) list"
  cache :: "string option"

definition no_options :: fetch_options where
  "no_options = \<lparr>headers = [], cache = None\<rparr>"

text \<open>
  The URLs the module builds: an endpoint with a \<open>URLSearchParams\<close> query string
  (\<open>`${endpoint}?${params}`\<close>), an endpoint with an object number appended
  (\<open>`${endpoint}/${objectId}`\<close>), or a fixed address.
\<close>

datatype param = PStr string | PNum nat | PBool bool

datatype url = Query string "(string \<times> param) list" | Path string nat | Plain string

text \<open>
  The network is a parameter: \<open>net url options k\<close> is what the \<open>k\<close>-th call of
  \<open>fetch(url, options)\<close> made by one run of \<open>fetchWithRetry\<close> does.
\<close>

type_synonym 'a network = "url \<Rightarrow> fetch_options \<Rightarrow> nat \<Rightarrow> 'a fetch_outcome"

text \<open>
  An async function either returns a value, falls off its end (returning
  \<open>undefined\<close>), or throws.
\<close>

datatype 'a completion = Returned 'a | ReturnedUndefined | Threw js_error

text \<open>What one run does, in order: the fetches it issues and the delays it sleeps.\<close>

datatype io_event = Fetch nat | Wait nat

text \<open>
  The body of the \<open>try\<close> block: await the fetch, throw on \<open>!response.ok\<close>, return
  the parsed body.
\<close>

definition attempt :: "'a fetch_outcome \<Rightarrow> js_error + 'a" where
  "attempt out =
     (case out of
        Rejected e \<Rightarrow> Inl e
      | Resolved r \<Rightarrow>
          if \<not> ok r then Inl (HttpError (status r) (statusText r)) else json r)"

text \<open>
  The \<open>for (let i = 0; i < retries; i++)\<close> loop, from iteration \<open>i\<close> on. In the
  \<open>catch\<close> branch \<open>i < retries\<close> holds, so \<open>retries - 1\<close> is the same on naturals as
  on JavaScript numbers.
\<close>

function fetchWithRetry_loop ::
  "'a network \<Rightarrow> url \<Rightarrow> fetch_options \<Rightarrow> nat \<Rightarrow> nat \<Rightarrow> 'a completion \<times> io_event list"
where
  "fetchWithRetry_loop net url opts retries i =
     (if i < retries then
        (case attempt (net url opts i) of
           Inr payload \<Rightarrow> (Returned payload, [Fetch i])
         | Inl error \<Rightarrow>
             if i = retries - 1 then (Threw error, [Fetch i])
             else (case fetchWithRetry_loop net url opts retries (i + 1) of
                     (c, tr) \<Rightarrow> (c, Fetch i # Wait (400 * (i + 1)) # tr)))
      else (ReturnedUndefined, []))"
  by pat_completeness auto
termination
  by (relation "measure (\<lambda>(net, url, opts, retries, i). retries - i)") auto

declare fetchWithRetry_loop.simps [simp del]

definition fetchWithRetry ::
  "'a network \<Rightarrow> url \<Rightarrow> fetch_options \<Rightarrow> nat \<Rightarrow> 'a completion \<times> io_event list"
where
  "fetchWithRetry net url options retries =
     fetchWithRetry_loop net url (options\<lparr>cache := Some ''no-store''\<rparr>) retries 0"

text \<open>The default value of the third parameter.\<close>

definition default_retries :: nat where
  "default_retries = 3"

fun is_fetch :: "io_event \<Rightarrow> bool" where
  "is_fetch (Fetch _) = True"
| "is_fetch (Wait _) = False"

definition attempts_made :: "io_event list \<Rightarrow> nat" where
  "attempts_made tr = length (filter is_fetch tr)"

fun waits_of :: "io_event list \<Rightarrow> nat list" where
  "waits_of [] = []"
| "waits_of (Fetch _ # tr) = waits_of tr"
| "waits_of (Wait d # tr) = d # waits_of tr"

text \<open>
  An attempt fails on the side of the network when \<open>fetch\<close> rejects, when the status
  of the response is outside 200 to 299, or when the body of a response is not JSON.
\<close>

fun request_failed :: "'a fetch_outcome \<Rightarrow> bool" where
  "request_failed (Rejected e) = True"
| "request_failed (Resolved r) = (status r < 200 \<or> 299 < status r \<or> isl (json r))"

text \<open>
  Two concrete networks: an endpoint that fails three times (no network, then HTTP 500,
  then HTTP 503), and one that fails twice (no network, then HTTP 503) and then answers
  200 with the payload 42. The error responses carry a JSON body of their own, the
  number 7.
\<close>

definition server_error :: "nat \<Rightarrow> nat response" where
  "server_error code = \<lparr>status = code, statusText = ''Server Error'', json = Inr 7\<rparr>"

definition net_dead :: "nat network" where
  "net_dead url opts k =
     (if k = 0 then Rejected (NetworkError ''Failed to fetch'')
      else if k = 1 then Resolved (server_error 500)
      else Resolved (server_error 503))"

definition net_flaky :: "nat network" where
  "net_flaky url opts k =
     (if k = 0 then Rejected (NetworkError ''Failed to fetch'')
      else if k = 1 then Resolved (server_error 503)
      else Resolved \<lparr>status = 200, statusText = ''OK'', json = Inr 42\<rparr>)"

section \<open>The MusicBrainz rate limiter (api-module.js)\<close>

definition MUSICBRAINZ_RATE_LIMIT :: int where
  "MUSICBRAINZ_RATE_LIMIT = 1000"

text \<open>
  The state the limiter reads and writes: the wall clock (what \<open>Date.now()\<close> returns, in
  milliseconds) and the module variable \<open>lastMusicBrainzRequest\<close>; \<open>slept\<close> logs the
  delays handed to \<open>setTimeout\<close>.
\<close>

record limiter_state =
  clock :: int
  lastMusicBrainzRequest :: int
  slept :: "int list"

text \<open>
  The synchronous prefix of \<open>rateLimitMusicBrainz\<close>, up to its \<open>await\<close>: the delay it
  asks \<open>setTimeout\<close> for, or \<open>None\<close> when the \<open>if\<close> is not entered.
\<close>

definition rateLimit_delay :: "int \<Rightarrow> int \<Rightarrow> int option" where
  "rateLimit_delay now lastRequest =
     (let timeSinceLastRequest = now - lastRequest
      in if timeSinceLastRequest < MUSICBRAINZ_RATE_LIMIT
         then Some (MUSICBRAINZ_RATE_LIMIT - timeSinceLastRequest)
         else None)"

text \<open>
  \<open>await new Promise(resolve => setTimeout(resolve, d))\<close>: the caller resumes \<open>d\<close>
  milliseconds later, plus whatever the scheduler is late by.
\<close>

definition sleep :: "int \<Rightarrow> nat \<Rightarrow> limiter_state \<Rightarrow> limiter_state" where
  "sleep d late s = s\<lparr>clock := clock s + d + int late, slept := slept s @ [d]\<rparr>"

text \<open>One call that runs alone, from its first line to its return.\<close>

definition rateLimitMusicBrainz :: "nat \<Rightarrow> limiter_state \<Rightarrow> limiter_state" where
  "rateLimitMusicBrainz late s =
     (let now = clock s;
          s' = (case rateLimit_delay now (lastMusicBrainzRequest s) of
                  Some d \<Rightarrow> sleep d late s
                | None \<Rightarrow> s)
      in s'\<lparr>lastMusicBrainzRequest := clock s'\<rparr>)"

text \<open>
  What every MusicBrainz adapter does with time: \<open>await rateLimitMusicBrainz()\<close>, then
  the HTTP request, which takes \<open>latency\<close> milliseconds and does not touch the limiter.
\<close>

definition musicbrainz_request :: "nat \<Rightarrow> nat \<Rightarrow> limiter_state \<Rightarrow> limiter_state" where
  "musicbrainz_request late latency s =
     (let s' = rateLimitMusicBrainz late s in s'\<lparr>clock := clock s' + int latency\<rparr>)"

subsection \<open>Several calls on the event loop\<close>

text \<open>
  JavaScript runs one task at a time. A call of \<open>rateLimitMusicBrainz\<close> runs without
  interruption up to its \<open>await\<close>; if it has to wait, its second half (the assignment
  to \<open>lastMusicBrainzRequest\<close>, after which the caller goes on to its request) runs as a
  timer task. A pending timer is its due time and its caller; timers that are due at the
  same time fire in the order in which they were armed.
\<close>

type_synonym timer = "int \<times> nat"

fun arm_timer :: "timer \<Rightarrow> timer list \<Rightarrow> timer list" where
  "arm_timer t [] = [t]"
| "arm_timer t (u # us) = (if fst u \<le> fst t then u # arm_timer t us else t # u # us)"

text \<open>
  \<open>admissions calls timers lastRequest\<close> runs the calls (time of the call, caller; in the order
  in which they are made) against the pending timers and the current value
  \<open>lastRequest\<close> of \<open>lastMusicBrainzRequest\<close>, and lists who is admitted when, in order. A timer that is
  due fires before a call made at that time or later.
\<close>

fun admissions :: "(int \<times> nat) list \<Rightarrow> timer list \<Rightarrow> int \<Rightarrow> (nat \<times> int) list" where
  "admissions [] [] lastRequest = []"
| "admissions [] ((due, who) # timers) lastRequest = (who, due) # admissions [] timers due"
| "admissions ((now, caller) # calls) [] lastRequest =
     (case rateLimit_delay now lastRequest of
        None \<Rightarrow> (caller, now) # admissions calls [] now
      | Some d \<Rightarrow> admissions calls (arm_timer (now + d, caller) []) lastRequest)"
| "admissions ((now, caller) # calls) ((due, who) # timers) lastRequest =
     (if due \<le> now then (who, due) # admissions ((now, caller) # calls) timers due
      else (case rateLimit_delay now lastRequest of
              None \<Rightarrow> (caller, now) # admissions calls ((due, who) # timers) now
            | Some d \<Rightarrow> admissions calls (arm_timer (now + d, caller) ((due, who) # timers)) lastRequest))"

text \<open>Consecutive admissions are at least one rate-limit interval apart.\<close>

fun spaced :: "int list \<Rightarrow> bool" where
  "spaced [] = True"
| "spaced [t] = True"
| "spaced (t # u # ts) = (MUSICBRAINZ_RATE_LIMIT \<le> u - t \<and> spaced (u # ts))"

text \<open>
  The music branch of \<open>searchAllSources\<close> calls the three MusicBrainz adapters one after
  the other inside one array literal, so the three limiter calls are made at the same
  \<open>Date.now()\<close>: callers 0 (artists), 1 (recordings) and 2 (instruments).
\<close>

definition music_branch_calls :: "int \<Rightarrow> (int \<times> nat) list" where
  "music_branch_calls now = [(now, 0), (now, 1), (now, 2)]"

section \<open>The source adapters (api-module.js)\<close>

text \<open>The endpoints of \<open>API_CONFIG\<close>.\<close>

definition met_search :: string where
  "met_search = ''https://collectionapi.metmuseum.org/public/collection/v1/search''"

definition met_object_endpoint :: string where
  "met_object_endpoint = ''https://collectionapi.metmuseum.org/public/collection/v1/objects''"

definition cleveland_search :: string where
  "cleveland_search = ''https://openaccess-api.clevelandart.org/api/artworks''"

definition musicbrainz_base :: string where
  "musicbrainz_base = ''https://musicbrainz.org/ws/2''"

definition musicbrainz_userAgent :: string where
  "musicbrainz_userAgent = ''LubaCulture/1.0 (info@lubaculture.com)''"

text \<open>
  The response bodies, reduced to the fields the module reads. A field that is absent
  or \<open>null\<close> in the JSON is \<open>None\<close>. A Met object body can be the JSON \<open>null\<close>; an
  object without a picture has the empty string as \<open>primaryImage\<close>.
\<close>

record met_search_payload =
  objectIDs :: "nat list option"

record met_object =
  objectID :: nat
  primaryImage :: string

record cleveland_artwork =
  artwork_id :: nat

record cleveland_payload =
  payload_data :: "cleveland_artwork list option"

record mb_entity =
  mbid :: string

record mb_payload =
  payload_count :: "nat option"
  payload_artists :: "mb_entity list option"
  payload_recordings :: "mb_entity list option"
  payload_instruments :: "mb_entity list option"

text \<open>What a MusicBrainz adapter returns: \<open>{count: ..., artists: ...}\<close> and its siblings.\<close>

record mb_result =
  result_count :: nat
  result_items :: "mb_entity list"

text \<open>
  The outside world of one aggregator call: the four services, each with its own body
  type, and the times at which the promises handed to the two \<open>Promise.all\<close> calls
  settle (\<open>art_settled i\<close> for the promise at position \<open>i\<close> of the art branch's array,
  \<open>music_settled i\<close> for the music branch's).
\<close>

record api =
  met_search_net :: "met_search_payload network"
  met_object_net :: "met_object option network"
  cleveland_net :: "cleveland_payload network"
  musicbrainz_net :: "mb_payload network"
  art_settled :: "nat \<Rightarrow> nat"
  music_settled :: "nat \<Rightarrow> nat"

text \<open>Every run of \<open>fetchWithRetry\<close> an operation starts, with its URL, in program order.\<close>

type_synonym request_log = "(url \<times> io_event list) list"

text \<open>
  \<open>const data = await fetchWithRetry(...); return f(data)\<close> where \<open>f\<close> reads a property
  of \<open>data\<close>: the read throws a \<open>TypeError\<close> when \<open>data\<close> is \<open>undefined\<close>.
\<close>

definition read_data :: "'a completion \<Rightarrow> ('a \<Rightarrow> 'b) \<Rightarrow> js_error + 'b" where
  "read_data c f =
     (case c of
        Returned d \<Rightarrow> Inr (f d)
      | ReturnedUndefined \<Rightarrow> Inl (TypeError ''Cannot read properties of undefined'')
      | Threw e \<Rightarrow> Inl e)"

text \<open>\<open>x || []\<close> for a field that holds an array when it holds anything.\<close>

definition or_empty :: "'a list option \<Rightarrow> 'a list" where
  "or_empty x = (case x of Some xs \<Rightarrow> xs | None \<Rightarrow> [])"

definition searchMetArtifacts ::
  "api \<Rightarrow> string \<Rightarrow> bool \<Rightarrow> (js_error + nat list) \<times> request_log"
where
  "searchMetArtifacts a query hasImages =
     (let u = Query met_search [(''q'', PStr query), (''hasImages'', PBool hasImages)];
          r = fetchWithRetry (met_search_net a) u no_options default_retries
      in (read_data (fst r) (\<lambda>d. or_empty (objectIDs d)), [(u, snd r)]))"

text \<open>\<open>getMetObject\<close> hands on what \<open>fetchWithRetry\<close> returns; \<open>undefined\<close> and \<open>null\<close> are \<open>None\<close>.\<close>

definition getMetObject ::
  "api \<Rightarrow> nat \<Rightarrow> (js_error + met_object option) \<times> request_log"
where
  "getMetObject a objectId =
     (let u = Path met_object_endpoint objectId;
          r = fetchWithRetry (met_object_net a) u no_options default_retries
      in (case fst r of
            Returned obj \<Rightarrow> Inr obj
          | ReturnedUndefined \<Rightarrow> Inr None
          | Threw e \<Rightarrow> Inl e,
          [(u, snd r)]))"

text \<open>
  \<open>Promise.allSettled\<close>, then the fulfilled results' values, then those that are truthy
  and have a truthy \<open>primaryImage\<close>.
\<close>

definition fulfilled_value :: "js_error + 'a \<Rightarrow> 'a option" where
  "fulfilled_value r = (case r of Inr v \<Rightarrow> Some v | Inl e \<Rightarrow> None)"

definition with_image :: "met_object option \<Rightarrow> met_object option" where
  "with_image obj =
     (case obj of
        None \<Rightarrow> None
      | Some ob \<Rightarrow> if primaryImage ob \<noteq> [] then Some ob else None)"

definition getMetObjects :: "api \<Rightarrow> nat list \<Rightarrow> met_object list \<times> request_log" where
  "getMetObjects a objectIds =
     (let results = map (getMetObject a) objectIds
      in (List.map_filter with_image (List.map_filter fulfilled_value (map fst results)),
          concat (map snd results)))"

definition searchClevelandArtifacts ::
  "api \<Rightarrow> string \<Rightarrow> nat \<Rightarrow> (js_error + cleveland_artwork list) \<times> request_log"
where
  "searchClevelandArtifacts a query limit =
     (let u = Query cleveland_search
                [(''q'', PStr query), (''has_image'', PNum 1), (''limit'', PNum limit)];
          r = fetchWithRetry (cleveland_net a) u no_options default_retries
      in (read_data (fst r) (\<lambda>d. or_empty (payload_data d)), [(u, snd r)]))"

text \<open>
  The three MusicBrainz searches differ in the path and in the field they read. Each
  first awaits the rate limiter, which delays the request and cannot fail.
\<close>

definition musicbrainz_options :: fetch_options where
  "musicbrainz_options =
     \<lparr>headers = [(''User-Agent'', musicbrainz_userAgent), (''Accept'', ''application/json'')],
      cache = None\<rparr>"

definition musicbrainz_search ::
  "api \<Rightarrow> string \<Rightarrow> (mb_payload \<Rightarrow> mb_entity list option) \<Rightarrow> string \<Rightarrow> nat \<Rightarrow> nat
     \<Rightarrow> (js_error + mb_result) \<times> request_log"
where
  "musicbrainz_search a path field query limit offset =
     (let u = Query (musicbrainz_base @ path)
                [(''query'', PStr query), (''limit'', PNum limit), (''offset'', PNum offset),
                 (''fmt'', PStr ''json'')];
          r = fetchWithRetry (musicbrainz_net a) u musicbrainz_options default_retries
      in (read_data (fst r)
            (\<lambda>d. \<lparr>result_count = (case payload_count d of Some n \<Rightarrow> n | None \<Rightarrow> 0),
                   result_items = or_empty (field d)\<rparr>),
          [(u, snd r)]))"

definition searchMusicBrainzArtists ::
  "api \<Rightarrow> string \<Rightarrow> nat \<Rightarrow> nat \<Rightarrow> (js_error + mb_result) \<times> request_log"
where
  "searchMusicBrainzArtists a = musicbrainz_search a ''/artist'' payload_artists"

definition searchMusicBrainzRecordings ::
  "api \<Rightarrow> string \<Rightarrow> nat \<Rightarrow> nat \<Rightarrow> (js_error + mb_result) \<times> request_log"
where
  "searchMusicBrainzRecordings a = musicbrainz_search a ''/recording'' payload_recordings"

definition searchMusicBrainzInstruments ::
  "api \<Rightarrow> string \<Rightarrow> nat \<Rightarrow> nat \<Rightarrow> (js_error + mb_result) \<times> request_log"
where
  "searchMusicBrainzInstruments a = musicbrainz_search a ''/instrument'' payload_instruments"

section \<open>The aggregator \<open>searchAllSources\<close> (api-module.js)\<close>

text \<open>
  \<open>Array.prototype.slice(start, end)\<close> on integers: a negative index counts from the
  end, and both are clamped to the array.
\<close>

definition js_slice :: "int \<Rightarrow> int \<Rightarrow> 'a list \<Rightarrow> 'a list" where
  "js_slice start end xs =
     (let n = int (length xs);
          k = (if start < 0 then max (n + start) 0 else min start n);
          final = (if end < 0 then max (n + end) 0 else min end n)
      in take (nat (final - k)) (drop (nat k) xs))"

text \<open>
  \<open>Promise.all\<close>: the values when every promise fulfils, else a rejection, with the
  reason of the promise that rejects first in time. \<open>settled i\<close> is the time at which
  the promise at position \<open>i\<close> settles; of two that settle at the same time the one
  earlier in the array counts as first.
\<close>

definition rejection :: "nat \<Rightarrow> js_error + 'a \<Rightarrow> (nat \<times> js_error) list" where
  "rejection i p = (case p of Inl e \<Rightarrow> [(i, e)] | Inr v \<Rightarrow> [])"

fun first_rejection :: "(nat \<Rightarrow> nat) \<Rightarrow> (nat \<times> js_error) list \<Rightarrow> js_error option" where
  "first_rejection settled [] = None"
| "first_rejection settled [(i, e)] = Some e"
| "first_rejection settled ((i, e) # (j, e') # rest) =
     (if settled j < settled i then first_rejection settled ((j, e') # rest)
      else first_rejection settled ((i, e) # rest))"

definition promise_all2 ::
  "(nat \<Rightarrow> nat) \<Rightarrow> js_error + 'a \<Rightarrow> js_error + 'b \<Rightarrow> js_error + 'a \<times> 'b"
where
  "promise_all2 settled p q =
     (case first_rejection settled (rejection 0 p @ rejection 1 q) of
        Some reason \<Rightarrow> Inl reason
      | None \<Rightarrow>
          (case p of
             Inl e \<Rightarrow> Inl e
           | Inr x \<Rightarrow> (case q of Inl e \<Rightarrow> Inl e | Inr y \<Rightarrow> Inr (x, y))))"

definition promise_all3 ::
  "(nat \<Rightarrow> nat) \<Rightarrow> js_error + 'a \<Rightarrow> js_error + 'b \<Rightarrow> js_error + 'c
     \<Rightarrow> js_error + 'a \<times> 'b \<times> 'c"
where
  "promise_all3 settled p q r =
     (case first_rejection settled (rejection 0 p @ rejection 1 q @ rejection 2 r) of
        Some reason \<Rightarrow> Inl reason
      | None \<Rightarrow>
          (case p of
             Inl e \<Rightarrow> Inl e
           | Inr x \<Rightarrow>
               (case q of
                  Inl e \<Rightarrow> Inl e
                | Inr y \<Rightarrow> (case r of Inl e \<Rightarrow> Inl e | Inr z \<Rightarrow> Inr (x, y, z)))))"

text \<open>
  The \<open>artifacts\<close> array holds Cleveland records and Met objects side by side; the
  constructor says where an element came from.
\<close>

datatype artifact = FromCleveland cleveland_artwork | FromMet met_object

record search_results =
  artifacts :: "artifact list"
  recordings :: "mb_entity list"
  artists :: "mb_entity list"
  instruments :: "mb_entity list"

text \<open>The options object; a missing key takes its default in the destructuring.\<close>

record search_options =
  includeArt :: "bool option"
  includeMusic :: "bool option"
  maxResults :: "int option"

datatype console_entry = ConsoleError string js_error

text \<open>What the function has built so far: its \<open>results\<close>, the console, the requests.\<close>

record aggregation =
  results :: search_results
  console :: "console_entry list"
  requests :: request_log

text \<open>
  The body of the first \<open>try\<close> block. Both searches are started before either is
  awaited, with their default arguments (\<open>hasImages = true\<close>, \<open>limit = 100\<close>).
\<close>

definition art_try :: "api \<Rightarrow> string \<Rightarrow> int \<Rightarrow> (js_error + artifact list) \<times> request_log" where
  "art_try a query maxResults' =
     (let met = searchMetArtifacts a query True;
          cleveland = searchClevelandArtifacts a query 100
      in (case promise_all2 (art_settled a) (fst met) (fst cleveland) of
            Inl error \<Rightarrow> (Inl error, snd met @ snd cleveland)
          | Inr (metIds, clevelandData) \<Rightarrow>
              (let metObjects = getMetObjects a (js_slice 0 10 metIds)
               in (Inr (js_slice 0 maxResults'
                         (map FromCleveland clevelandData @ map FromMet (fst metObjects))),
                   snd met @ snd cleveland @ snd metObjects))))"

definition art_branch :: "api \<Rightarrow> string \<Rightarrow> int \<Rightarrow> aggregation \<Rightarrow> aggregation" where
  "art_branch a query maxResults' g =
     (let t = art_try a query maxResults'
      in (case fst t of
            Inr found \<Rightarrow>
              g\<lparr>results := (results g)\<lparr>artifacts := found\<rparr>, requests := requests g @ snd t\<rparr>
          | Inl error \<Rightarrow>
              g\<lparr>console := console g @ [ConsoleError ''Art search failed:'' error],
                requests := requests g @ snd t\<rparr>))"

text \<open>The body of the second \<open>try\<close> block, with the limits 15, 15 and 10.\<close>

definition music_try ::
  "api \<Rightarrow> string \<Rightarrow> (js_error + mb_result \<times> mb_result \<times> mb_result) \<times> request_log"
where
  "music_try a query =
     (let artistsData = searchMusicBrainzArtists a query 15 0;
          recordingsData = searchMusicBrainzRecordings a query 15 0;
          instrumentsData = searchMusicBrainzInstruments a query 10 0
      in (promise_all3 (music_settled a)
            (fst artistsData) (fst recordingsData) (fst instrumentsData),
          snd artistsData @ snd recordingsData @ snd instrumentsData))"

definition music_branch :: "api \<Rightarrow> string \<Rightarrow> aggregation \<Rightarrow> aggregation" where
  "music_branch a query g =
     (let t = music_try a query
      in (case fst t of
            Inr (artistsData, recordingsData, instrumentsData) \<Rightarrow>
              g\<lparr>results := (results g)\<lparr>artists := result_items artistsData,
                                        recordings := result_items recordingsData,
                                        instruments := result_items instrumentsData\<rparr>,
                requests := requests g @ snd t\<rparr>
          | Inl error \<Rightarrow>
              g\<lparr>console := console g @ [ConsoleError ''Music search failed:'' error],
                requests := requests g @ snd t\<rparr>))"

text \<open>
  The function itself. Nothing outside the two \<open>try\<close> blocks can throw, so the
  completion is built with \<open>Returned\<close> at the one \<open>return\<close>.
\<close>

definition searchAllSources ::
  "api \<Rightarrow> string \<Rightarrow> search_options \<Rightarrow> search_results completion \<times> aggregation"
where
  "searchAllSources a query options =
     (let includeArt' = (case includeArt options of Some b \<Rightarrow> b | None \<Rightarrow> True);
          includeMusic' = (case includeMusic options of Some b \<Rightarrow> b | None \<Rightarrow> True);
          maxResults' = (case maxResults options of Some n \<Rightarrow> n | None \<Rightarrow> 50);
          g0 = \<lparr>results = \<lparr>artifacts = [], recordings = [], artists = [], instruments = []\<rparr>,
                console = [], requests = []\<rparr>;
          g1 = (if includeArt' then art_branch a query maxResults' g0 else g0);
          g2 = (if includeMusic' then music_branch a query g1 else g1)
      in (Returned (results g2), g2))"

text \<open>The Met object requests of a log, by object number.\<close>

fun met_object_requests :: "request_log \<Rightarrow> nat list" where
  "met_object_requests [] = []"
| "met_object_requests ((Path endpoint objectId, tr) # rest) = objectId # met_object_requests rest"
| "met_object_requests ((other, tr) # rest) = met_object_requests rest"

subsection \<open>Concrete services\<close>

text \<open>A service that answers 200 with a fixed body, and one that cannot be reached.\<close>

definition responds :: "'a \<Rightarrow> 'a network" where
  "responds body u opts k = Resolved \<lparr>status = 200, statusText = ''OK'', json = Inr body\<rparr>"

definition unreachable :: "'a network" where
  "unreachable u opts k = Rejected (NetworkError ''Failed to fetch'')"

definition no_music :: mb_payload where
  "no_music = \<lparr>payload_count = Some 0, payload_artists = None, payload_recordings = None,
                payload_instruments = None\<rparr>"

definition some_music :: mb_payload where
  "some_music = \<lparr>payload_count = Some 1, payload_artists = Some [\<lparr>mbid = ''a1''\<rparr>],
                  payload_recordings = Some [\<lparr>mbid = ''r1''\<rparr>],
                  payload_instruments = Some [\<lparr>mbid = ''i1''\<rparr>]\<rparr>"

text \<open>The Met search is down; Cleveland finds two artworks; MusicBrainz answers.\<close>

definition api_met_down :: api where
  "api_met_down =
     \<lparr>met_search_net = unreachable,
      met_object_net = unreachable,
      cleveland_net = responds \<lparr>payload_data = Some [\<lparr>artwork_id = 1\<rparr>, \<lparr>artwork_id = 2\<rparr>]\<rparr>,
      musicbrainz_net = responds some_music,
      art_settled = (\<lambda>i. 0),
      music_settled = (\<lambda>i. 0)\<rparr>"

text \<open>MusicBrainz is down; Cleveland finds two artworks; the Met finds nothing.\<close>

definition api_music_down :: api where
  "api_music_down =
     \<lparr>met_search_net = responds \<lparr>objectIDs = None\<rparr>,
      met_object_net = unreachable,
      cleveland_net = responds \<lparr>payload_data = Some [\<lparr>artwork_id = 1\<rparr>, \<lparr>artwork_id = 2\<rparr>]\<rparr>,
      musicbrainz_net = unreachable,
      art_settled = (\<lambda>i. 0),
      music_settled = (\<lambda>i. 0)\<rparr>"

text \<open>
  Cleveland finds three artworks; the Met search finds twelve objects, each with a
  picture.
\<close>

definition met_picture :: "met_object option network" where
  "met_picture u =
     (case u of
        Path endpoint objectId \<Rightarrow> responds (Some \<lparr>objectID = objectId, primaryImage = ''jpg''\<rparr>) u
      | Query endpoint ps \<Rightarrow> unreachable u
      | Plain address \<Rightarrow> unreachable u)"

definition api_both_up :: api where
  "api_both_up =
     \<lparr>met_search_net = responds \<lparr>objectIDs = Some [101, 102, 103, 104, 105, 106, 107, 108, 109, 110, 111, 112]\<rparr>,
      met_object_net = met_picture,
      cleveland_net = responds \<lparr>payload_data = Some [\<lparr>artwork_id = 1\<rparr>, \<lparr>artwork_id = 2\<rparr>, \<lparr>artwork_id = 3\<rparr>]\<rparr>,
      musicbrainz_net = responds some_music,
      art_settled = (\<lambda>i. 0),
      music_settled = (\<lambda>i. 0)\<rparr>"

section \<open>The debounce combinator (search-module.js)\<close>

text \<open>
  The browser's timer table: \<open>setTimeout\<close> hands out handles 1, 2, 3, ... and never
  reuses one; a pending timer is its handle, its due time and the task it will run. A
  task is either the closure \<open>() => func.apply(this, args)\<close> armed by a debounced
  function, kept as the pair of \<open>func\<close> and \<open>args\<close>, or a task of some other code.
  \<open>debounceTimer\<close> is the one variable of the module that every function returned by
  \<open>debounce\<close> reads and writes; \<open>None\<close> is its initial \<open>null\<close>.
\<close>

datatype ('f, 'a) task = Apply 'f 'a | OtherTask

record ('f, 'a) timers =
  debounceTimer :: "nat option"
  pending :: "(nat \<times> int \<times> ('f, 'a) task) list"
  next_handle :: nat

definition initial_timers :: "('f, 'a) timers" where
  "initial_timers = \<lparr>debounceTimer = None, pending = [], next_handle = 1\<rparr>"

definition setTimeout ::
  "('f, 'a) task \<Rightarrow> int \<Rightarrow> int \<Rightarrow> ('f, 'a) timers \<Rightarrow> nat \<times> ('f, 'a) timers"
where
  "setTimeout t delay now s =
     (next_handle s,
      s\<lparr>pending := pending s @ [(next_handle s, now + delay, t)],
        next_handle := next_handle s + 1\<rparr>)"

text \<open>\<open>clearTimeout\<close> of \<open>null\<close>, or of a handle that is no longer pending, does nothing.\<close>

definition clearTimeout :: "nat option \<Rightarrow> ('f, 'a) timers \<Rightarrow> ('f, 'a) timers" where
  "clearTimeout h s =
     (case h of
        None \<Rightarrow> s
      | Some i \<Rightarrow> s\<lparr>pending := filter (\<lambda>t. fst t \<noteq> i) (pending s)\<rparr>)"

text \<open>
  \<open>debounce(func, delay)\<close> returns a closure over \<open>func\<close> and \<open>delay\<close>; calling it
  with \<open>args\<close> at time \<open>now\<close> runs the two statements of its body.
\<close>

datatype 'f debounced = Debounced 'f int

definition debounce :: "'f \<Rightarrow> int \<Rightarrow> 'f debounced" where
  "debounce func delay = Debounced func delay"

fun call_debounced :: "'f debounced \<Rightarrow> 'a \<Rightarrow> int \<Rightarrow> ('f, 'a) timers \<Rightarrow> ('f, 'a) timers" where
  "call_debounced (Debounced func delay) args now s =
     (let s1 = clearTimeout (debounceTimer s) s;
          armed = setTimeout (Apply func args) delay now s1
      in (snd armed)\<lparr>debounceTimer := Some (fst armed)\<rparr>)"

text \<open>A timer fires: it leaves the table and its task runs (the task arms no timer).\<close>

definition fire :: "nat \<Rightarrow> ('f, 'a) timers \<Rightarrow> ('f, 'a) timers" where
  "fire h s = s\<lparr>pending := filter (\<lambda>t. fst t \<noteq> h) (pending s)\<rparr>"

text \<open>
  What can happen to the table: a debounced function is called, a pending timer fires,
  \<open>clearSearch\<close> runs its \<open>clearTimeout(debounceTimer)\<close>, or other code arms a timer
  of its own.
\<close>

datatype ('f, 'a) timer_event =
    Call "'f debounced" 'a int
  | Fire nat
  | ClearSearch
  | OtherSetTimeout int int

fun timer_step :: "('f, 'a) timer_event \<Rightarrow> ('f, 'a) timers \<Rightarrow> ('f, 'a) timers" where
  "timer_step (Call d args now) s = call_debounced d args now s"
| "timer_step (Fire h) s = fire h s"
| "timer_step ClearSearch s = clearTimeout (debounceTimer s) s"
| "timer_step (OtherSetTimeout delay now) s = snd (setTimeout OtherTask delay now s)"

fun run_timers :: "('f, 'a) timer_event list \<Rightarrow> ('f, 'a) timers \<Rightarrow> ('f, 'a) timers" where
  "run_timers [] s = s"
| "run_timers (e # es) s = run_timers es (timer_step e s)"

text \<open>The pending invocations of debounced functions.\<close>

fun is_debounced :: "nat \<times> int \<times> ('f, 'a) task \<Rightarrow> bool" where
  "is_debounced (h, due, Apply func args) = True"
| "is_debounced (h, due, OtherTask) = False"

definition pending_debounced :: "('f, 'a) timers \<Rightarrow> (nat \<times> int \<times> ('f, 'a) task) list" where
  "pending_debounced s = filter is_debounced (pending s)"

text \<open>
  The invariant of the timer table: handles are distinct and below the next handle to
  be handed out, and a pending debounced invocation has the handle stored in
  \<open>debounceTimer\<close>.
\<close>

definition timers_inv :: "('f, 'a) timers \<Rightarrow> bool" where
  "timers_inv s =
     (distinct (map fst (pending s))
      \<and> (\<forall>t \<in> set (pending s). fst t < next_handle s)
      \<and> (\<forall>t \<in> set (pending s). is_debounced t \<longrightarrow> debounceTimer s = Some (fst t)))"

section \<open>The search controller \<open>performSearch\<close> (search-module.js)\<close>

definition DEBOUNCE_DELAY :: int where
  "DEBOUNCE_DELAY = 500"

text \<open>
  What the two DOM elements show, as far as the function decides it: the container is
  emptied, filled with a loading skeleton, with an empty-state message, or with the
  artifact and recording cards; the status line holds one of the function's messages
  (a constructor of \<open>status_text\<close> is one message template with the values it
  interpolates).
\<close>

datatype container_content =
    Blank
  | LoadingSkeleton nat
  | EmptyState string
  | Cards "artifact list" "mb_entity list"

datatype status_text =
    Untouched
  | TypeAtLeast nat
  | Searching string
  | NoResultsFor string
  | FoundFor nat nat nat string
  | SearchFailed

text \<open>
  The module variables \<open>currentSearchQuery\<close> and \<open>searchResults\<close>, and the two
  elements. (The initial \<open>searchResults\<close> object has no \<open>instruments\<close> key; the model
  gives it the empty sequence.)
\<close>

record search_module =
  currentSearchQuery :: string
  searchResults :: search_results
  container :: container_content
  statusElement :: status_text

definition initial_search_module :: search_module where
  "initial_search_module =
     \<lparr>currentSearchQuery = [],
      searchResults = \<lparr>artifacts = [], recordings = [], artists = [], instruments = []\<rparr>,
      container = Blank,
      statusElement = Untouched\<rparr>"

text \<open>
  The options of \<open>performSearch\<close>: the category and the minimum length with their
  defaults, and whether a container and a status element were passed (else \<open>null\<close>).
\<close>

record perform_options =
  category :: "string option"
  has_container :: bool
  has_status :: bool
  minLength :: "nat option"

definition category_of :: "perform_options \<Rightarrow> string" where
  "category_of opts = (case category opts of Some c \<Rightarrow> c | None \<Rightarrow> ''all'')"

definition minLength_of :: "perform_options \<Rightarrow> nat" where
  "minLength_of opts = (case minLength opts of Some n \<Rightarrow> n | None \<Rightarrow> 2)"

text \<open>
  \<open>String.prototype.trim\<close>. A character of a string stands for a code unit below 256;
  of the white space and line terminators that \<open>trim\<close> strips, these seven are in
  that range (tab, line feed, vertical tab, form feed, carriage return, space and the
  no-break space U+00A0).
\<close>

definition js_whitespace :: "char \<Rightarrow> bool" where
  "js_whitespace c =
     (c \<in> {CHR 0x09, CHR 0x0A, CHR 0x0B, CHR 0x0C, CHR 0x0D, CHR 0x20, CHR 0xA0})"

definition js_trim :: "string \<Rightarrow> string" where
  "js_trim str = rev (dropWhile js_whitespace (rev (dropWhile js_whitespace str)))"

definition set_status :: "perform_options \<Rightarrow> status_text \<Rightarrow> search_module \<Rightarrow> search_module" where
  "set_status opts t s = (if has_status opts then s\<lparr>statusElement := t\<rparr> else s)"

definition set_container ::
  "perform_options \<Rightarrow> container_content \<Rightarrow> search_module \<Rightarrow> search_module"
where
  "set_container opts c s = (if has_container opts then s\<lparr>container := c\<rparr> else s)"

text \<open>The \<open>searchOptions\<close> object built inside the \<open>try\<close> block.\<close>

definition searchOptions :: "perform_options \<Rightarrow> search_options" where
  "searchOptions opts =
     \<lparr>includeArt = Some (category_of opts = ''all'' \<or> category_of opts = ''artifacts''),
      includeMusic = Some (category_of opts = ''all'' \<or> category_of opts = ''music''),
      maxResults = Some 50\<rparr>"

text \<open>The text \<open>`No results found for "${currentSearchQuery}"`\<close> of the empty state.\<close>

definition no_results_message :: "string \<Rightarrow> string" where
  "no_results_message q = ''No results found for '' @ [CHR 0x22] @ q @ [CHR 0x22]"

definition displaySearchResults ::
  "search_results \<Rightarrow> perform_options \<Rightarrow> search_module \<Rightarrow> search_module"
where
  "displaySearchResults found opts s =
     (if \<not> has_container opts then s
      else
        (let totalArtifacts = length (artifacts found);
             totalRecordings = length (recordings found);
             totalArtists = length (artists found);
             totalResults = totalArtifacts + totalRecordings + totalArtists;
             s1 = s\<lparr>container := Blank\<rparr>;
             s2 = set_status opts
                    (if totalResults = 0 then NoResultsFor (currentSearchQuery s1)
                     else FoundFor totalArtifacts totalRecordings totalArtists
                            (currentSearchQuery s1)) s1
         in if totalResults = 0
            then s2\<lparr>container := EmptyState (no_results_message (currentSearchQuery s2))\<rparr>
            else s2\<lparr>container :=
                      Cards (if category_of opts = ''all'' \<or> category_of opts = ''artifacts''
                             then artifacts found else [])
                            (if category_of opts = ''all'' \<or> category_of opts = ''music''
                             then recordings found else [])\<rparr>))"

text \<open>
  \<open>performSearch\<close> up to its \<open>await\<close>: \<open>False\<close> when the query is too short and the
  function has returned, \<open>True\<close> when \<open>searchAllSources\<close> has been called and the
  function is suspended.
\<close>

definition performSearch_begin ::
  "string \<Rightarrow> perform_options \<Rightarrow> search_module \<Rightarrow> bool \<times> search_module"
where
  "performSearch_begin query opts s =
     (if length (js_trim query) < minLength_of opts
      then (False, set_container opts Blank (set_status opts (TypeAtLeast (minLength_of opts)) s))
      else (True,
            set_container opts (LoadingSkeleton 6)
              (set_status opts (Searching query) (s\<lparr>currentSearchQuery := query\<rparr>))))"

text \<open>
  \<open>performSearch\<close> from its \<open>await\<close> on, when the aggregator's promise has settled:
  with the results (\<open>Inr\<close>), or with an exception (\<open>Inl\<close>), which the \<open>catch\<close> handles.
\<close>

definition performSearch_resume ::
  "string \<Rightarrow> perform_options \<Rightarrow> js_error + search_results \<Rightarrow> search_module \<Rightarrow> search_module"
where
  "performSearch_resume query opts settled s =
     (case settled of
        Inr found \<Rightarrow>
          (let s1 = s\<lparr>searchResults := found\<rparr>
           in if currentSearchQuery s1 \<noteq> query then s1
              else displaySearchResults found opts s1)
      | Inl error \<Rightarrow>
          set_container opts (EmptyState ''Unable to complete search. Please try again.'')
            (set_status opts SearchFailed s))"

text \<open>
  Two searches that overlap: the options the search bar passes, and the results the
  aggregator finds for the first query (one artwork) and for the second (another one).
\<close>

definition bar_options :: perform_options where
  "bar_options = \<lparr>category = Some ''all'', has_container = True, has_status = True,
                   minLength = Some 2\<rparr>"

definition results_for_lu :: search_results where
  "results_for_lu = \<lparr>artifacts = [FromCleveland \<lparr>artwork_id = 1\<rparr>], recordings = [],
                      artists = [], instruments = []\<rparr>"

definition results_for_luba :: search_results where
  "results_for_luba = \<lparr>artifacts = [FromCleveland \<lparr>artwork_id = 2\<rparr>], recordings = [],
                        artists = [], instruments = []\<rparr>"

text \<open>
  The search for \<open>lu\<close> starts, the search for \<open>luba\<close> starts, the aggregator answers
  \<open>luba\<close> first and \<open>lu\<close> afterwards.
\<close>

definition overlapping_searches :: search_module where
  "overlapping_searches =
     (let s1 = snd (performSearch_begin ''lu'' bar_options initial_search_module);
          s2 = snd (performSearch_begin ''luba'' bar_options s1);
          s3 = performSearch_resume ''luba'' bar_options (Inr results_for_luba) s2
      in performSearch_resume ''lu'' bar_options (Inr results_for_lu) s3)"

section \<open>Favorites in local storage (data-management.js)\<close>

text \<open>
  The values a favorite's properties hold: JSON scalars, and \<open>undefined\<close> for an
  object in memory. On these, \<open>===\<close> is equality. An object is a finite map from
  property names; reading a missing property gives \<open>undefined\<close>.
\<close>

datatype json_value = JNull | JBool bool | JNum int | JStr string

datatype js_value = Undefined | Defined json_value

type_synonym js_object = "string \<Rightarrow> js_value option"

type_synonym json_object = "string \<Rightarrow> json_value option"

definition property :: "js_object \<Rightarrow> string \<Rightarrow> js_value" where
  "property obj key = (case obj key of Some v \<Rightarrow> v | None \<Rightarrow> Undefined)"

fun truthy :: "js_value \<Rightarrow> bool" where
  "truthy Undefined = False"
| "truthy (Defined JNull) = False"
| "truthy (Defined (JBool b)) = b"
| "truthy (Defined (JNum n)) = (n \<noteq> 0)"
| "truthy (Defined (JStr str)) = (str \<noteq> [])"

definition js_or :: "js_value \<Rightarrow> js_value \<Rightarrow> js_value" where
  "js_or x y = (if truthy x then x else y)"

text \<open>
  \<open>JSON.stringify\<close> leaves out the properties whose value is \<open>undefined\<close>;
  \<open>JSON.parse\<close> gives back an object whose properties are all defined.
\<close>

definition JSON_stringify :: "js_object \<Rightarrow> json_object" where
  "JSON_stringify obj key = (case obj key of Some (Defined v) \<Rightarrow> Some v | _ \<Rightarrow> None)"

definition JSON_parse :: "json_object \<Rightarrow> js_object" where
  "JSON_parse j key = map_option Defined (j key)"

text \<open>
  The storage item \<open>luba_my_heritage\<close>: absent, not parseable, or the JSON of a
  favorites object (from type names to arrays of entries). \<open>setItem\<close> throws when the
  quota is exceeded.
\<close>

datatype stored_item = Missing | Corrupt | Stored "string \<Rightarrow> json_object list option"

record local_storage =
  luba_my_heritage :: stored_item
  quota_exceeded :: bool

type_synonym favorites = "string \<Rightarrow> js_object list option"

definition default_favorites :: favorites where
  "default_favorites =
     [''artifacts'' \<mapsto> [], ''recordings'' \<mapsto> [], ''artists'' \<mapsto> [], ''narratives'' \<mapsto> []]"

text \<open>\<open>getFromStorage(STORAGE_KEYS.FAVORITES, {...})\<close>: the default on a miss or a throw.\<close>

definition getFavorites :: "local_storage \<Rightarrow> favorites" where
  "getFavorites st =
     (case luba_my_heritage st of
        Stored f \<Rightarrow> (\<lambda>type. map_option (map JSON_parse) (f type))
      | Missing \<Rightarrow> default_favorites
      | Corrupt \<Rightarrow> default_favorites)"

text \<open>\<open>saveToStorage(STORAGE_KEYS.FAVORITES, value)\<close>: \<open>false\<close> when \<open>setItem\<close> throws.\<close>

definition saveToStorage :: "favorites \<Rightarrow> local_storage \<Rightarrow> bool \<times> local_storage" where
  "saveToStorage val st =
     (if quota_exceeded st then (False, st)
      else (True,
            st\<lparr>luba_my_heritage := Stored (\<lambda>type. map_option (map JSON_stringify) (val type))\<rparr>))"

text \<open>
  \<open>favorites[type]\<close>. A key of the object itself gives its array. Any other name gives
  \<open>undefined\<close>, unless it names a property that every object inherits from
  \<open>Object.prototype\<close>: then the read gives that function (for \<open>__proto__\<close>, the
  prototype object), which is truthy and has no \<open>some\<close> method.
\<close>

definition object_prototype_names :: "string list" where
  "object_prototype_names =
     [''constructor'', ''__proto__'', ''hasOwnProperty'', ''isPrototypeOf'',
      ''propertyIsEnumerable'', ''toLocaleString'', ''toString'', ''valueOf'',
      ''__defineGetter__'', ''__defineSetter__'', ''__lookupGetter__'', ''__lookupSetter__'']"

datatype 'a member = Own 'a | Inherited | Absent

definition member_at :: "favorites \<Rightarrow> string \<Rightarrow> js_object list member" where
  "member_at favs type =
     (case favs type of
        Some entries \<Rightarrow> Own entries
      | None \<Rightarrow> if type \<in> set object_prototype_names then Inherited else Absent)"

definition not_a_function :: js_error where
  "not_a_function = TypeError ''favorites[type].some is not a function''"

definition isFavorite :: "string \<Rightarrow> js_value \<Rightarrow> local_storage \<Rightarrow> js_error + bool" where
  "isFavorite type itemId st =
     (case member_at (getFavorites st) type of
        Own entries \<Rightarrow> Inr (list_ex (\<lambda>entry. property entry ''id'' = itemId) entries)
      | Inherited \<Rightarrow> Inl not_a_function
      | Absent \<Rightarrow> Inr False)"

text \<open>
  \<open>addFavorite(type, item)\<close>; \<open>now\<close> is \<open>new Date().toISOString()\<close>. In the new entry
  the properties of \<open>item\<close> are spread last and win. The value of \<open>saveToStorage\<close> is
  not looked at. The call throws, before anything is stored, when \<open>favorites[type]\<close>
  is an inherited property.
\<close>

definition new_entry :: "js_object \<Rightarrow> string \<Rightarrow> js_object" where
  "new_entry item now =
     [''id'' \<mapsto> property item ''id'',
      ''name'' \<mapsto> js_or (js_or (property item ''name'') (property item ''title''))
                     (Defined (JStr ''Untitled'')),
      ''dateAdded'' \<mapsto> Defined (JStr now)] ++ item"

definition addFavorite ::
  "string \<Rightarrow> js_object \<Rightarrow> string \<Rightarrow> local_storage \<Rightarrow> (js_error + bool) \<times> local_storage"
where
  "addFavorite type item now st =
     (let favorites0 = getFavorites st;
          favorites1 = (case member_at favorites0 type of
                          Absent \<Rightarrow> favorites0(type \<mapsto> [])
                        | Own entries \<Rightarrow> favorites0
                        | Inherited \<Rightarrow> favorites0)
      in (case member_at favorites1 type of
            Inherited \<Rightarrow> (Inl not_a_function, st)
          | Absent \<Rightarrow> (Inl (TypeError ''Cannot read properties of undefined''), st)
          | Own entries \<Rightarrow>
              (let exists = list_ex (\<lambda>fav. property fav ''id'' = property item ''id'') entries
               in if \<not> exists
                  then (Inr True,
                        snd (saveToStorage
                               (favorites1(type \<mapsto> entries @ [new_entry item now])) st))
                  else (Inr False, st))))"

text \<open>The entries stored under a type, as \<open>getFavorites\<close> reads them.\<close>

definition entries_of :: "local_storage \<Rightarrow> string \<Rightarrow> js_object list" where
  "entries_of st type = (case getFavorites st type of Some es \<Rightarrow> es | None \<Rightarrow> [])"

text \<open>An empty store that takes writes, one that refuses them, and a Met object's card.\<close>

definition empty_storage :: local_storage where
  "empty_storage = \<lparr>luba_my_heritage = Missing, quota_exceeded = False\<rparr>"

definition full_storage :: local_storage where
  "full_storage = \<lparr>luba_my_heritage = Missing, quota_exceeded = True\<rparr>"

definition card_436 :: js_object where
  "card_436 = [''id'' \<mapsto> Defined (JStr ''436''), ''type'' \<mapsto> Defined (JStr ''artifacts''),
               ''name'' \<mapsto> Defined (JStr ''Lukasa'')]"

section \<open>Properties of \<open>fetchWithRetry\<close>\<close>

lemma loop_done:
  "\<not> i < retries \<Longrightarrow> fetchWithRetry_loop net url opts retries i = (ReturnedUndefined, [])"
  by (subst fetchWithRetry_loop.simps) simp

lemma loop_success:
  "i < retries \<Longrightarrow> attempt (net url opts i) = Inr v \<Longrightarrow>
   fetchWithRetry_loop net url opts retries i = (Returned v, [Fetch i])"
  by (subst fetchWithRetry_loop.simps) simp

lemma loop_last_failure:
  "i < retries \<Longrightarrow> attempt (net url opts i) = Inl e \<Longrightarrow> i = retries - 1 \<Longrightarrow>
   fetchWithRetry_loop net url opts retries i = (Threw e, [Fetch i])"
  by (subst fetchWithRetry_loop.simps) simp

lemma loop_retry:
  "i < retries \<Longrightarrow> attempt (net url opts i) = Inl e \<Longrightarrow> i \<noteq> retries - 1 \<Longrightarrow>
   fetchWithRetry_loop net url opts retries i =
     (fst (fetchWithRetry_loop net url opts retries (i + 1)),
      Fetch i # Wait (400 * (i + 1)) # snd (fetchWithRetry_loop net url opts retries (i + 1)))"
  by (subst fetchWithRetry_loop.simps) (simp split: prod.splits)

lemma loop_all_fail:
  "i < retries \<Longrightarrow>
   (\<forall>k. i \<le> k \<and> k < retries \<longrightarrow> isl (attempt (net url opts k))) \<Longrightarrow>
   attempt (net url opts (retries - 1)) = Inl e \<Longrightarrow>
   fst (fetchWithRetry_loop net url opts retries i) = Threw e"
proof (induction net url opts retries i rule: fetchWithRetry_loop.induct)
  case (1 net url opts retries i)
  from "1.prems" obtain err where err: "attempt (net url opts i) = Inl err"
    by (cases "attempt (net url opts i)") auto
  show ?case
  proof (cases "i = retries - 1")
    case True
    from err True "1.prems"(3) have "err = e" by simp
    with loop_last_failure [where net = net and url = url and opts = opts, OF "1.prems"(1) err True] show ?thesis by simp
  next
    case False
    with "1.prems" have lt: "i + 1 < retries" by arith
    have "fst (fetchWithRetry_loop net url opts retries (i + 1)) = Threw e"
      using "1.IH" [OF "1.prems"(1) err False lt] "1.prems" by simp
    with loop_retry [where net = net and url = url and opts = opts, OF "1.prems"(1) err False] show ?thesis by simp
  qed
qed

lemma loop_attempts_le:
  "attempts_made (snd (fetchWithRetry_loop net url opts retries i)) \<le> retries - i"
proof (induction net url opts retries i rule: fetchWithRetry_loop.induct)
  case (1 net url opts retries i)
  show ?case
  proof (cases "i < retries")
    case False
    then show ?thesis by (simp add: loop_done attempts_made_def)
  next
    case lt: True
    show ?thesis
    proof (cases "attempt (net url opts i)")
      case (Inr v)
      with lt show ?thesis by (simp add: loop_success attempts_made_def)
    next
      case (Inl err)
      show ?thesis
      proof (cases "i = retries - 1")
        case True
        from loop_last_failure [where net = net and url = url and opts = opts, OF lt Inl True] lt show ?thesis
          by (simp add: attempts_made_def)
      next
        case False
        from "1.IH" [OF lt Inl False]
        have "attempts_made (snd (fetchWithRetry_loop net url opts retries (i + 1)))
                \<le> retries - (i + 1)" .
        with loop_retry [where net = net and url = url and opts = opts, OF lt Inl False] lt show ?thesis
          by (simp add: attempts_made_def)
      qed
    qed
  qed
qed

lemma loop_waits_linear:
  "\<exists>n. waits_of (snd (fetchWithRetry_loop net url opts retries i)) =
     map (\<lambda>k. 400 * (k + 1)) [i ..< i + n]"
proof (induction net url opts retries i rule: fetchWithRetry_loop.induct)
  case (1 net url opts retries i)
  show ?case
  proof (cases "i < retries")
    case False
    then have "waits_of (snd (fetchWithRetry_loop net url opts retries i))
                 = map (\<lambda>k. 400 * (k + 1)) [i ..< i + 0]"
      by (simp add: loop_done)
    then show ?thesis by blast
  next
    case lt: True
    show ?thesis
    proof (cases "attempt (net url opts i)")
      case (Inr v)
      with lt have "waits_of (snd (fetchWithRetry_loop net url opts retries i))
                 = map (\<lambda>k. 400 * (k + 1)) [i ..< i + 0]"
        by (simp add: loop_success)
      then show ?thesis by blast
    next
      case (Inl err)
      show ?thesis
      proof (cases "i = retries - 1")
        case True
        from loop_last_failure [where net = net and url = url and opts = opts, OF lt Inl True]
        have "waits_of (snd (fetchWithRetry_loop net url opts retries i))
                 = map (\<lambda>k. 400 * (k + 1)) [i ..< i + 0]"
          by simp
        then show ?thesis by blast
      next
        case False
        from "1.IH" [OF lt Inl False] obtain n where
          ih: "waits_of (snd (fetchWithRetry_loop net url opts retries (i + 1)))
                 = map (\<lambda>k. 400 * (k + 1)) [i + 1 ..< i + 1 + n]"
          by blast
        have "[i ..< i + Suc n] = i # [i + 1 ..< i + 1 + n]"
          by (simp add: upt_conv_Cons)
        with ih loop_retry [where net = net and url = url and opts = opts, OF lt Inl False]
        have "waits_of (snd (fetchWithRetry_loop net url opts retries i))
                 = map (\<lambda>k. 400 * (k + 1)) [i ..< i + Suc n]"
          by simp
        then show ?thesis by blast
      qed
    qed
  qed
qed

text \<open>
  Claim C4. When every one of the \<open>retries\<close> attempts fails (and there is at least one
  attempt, as with the default of 3), the call throws, and the value it throws is the
  error of the last attempt.
\<close>

theorem fetchWithRetry_exhausted_throws_last_cause:
  assumes "0 < retries"
    and "\<forall>k<retries. isl (attempt (net url (options\<lparr>cache := Some ''no-store''\<rparr>) k))"
    and "attempt (net url (options\<lparr>cache := Some ''no-store''\<rparr>) (retries - 1)) = Inl cause"
  shows "fst (fetchWithRetry net url options retries) = Threw cause"
  unfolding fetchWithRetry_def
  using assms by (intro loop_all_fail) auto

theorem fetchWithRetry_exhausted_throws_last_cause_witness:
  "isl (attempt (net_dead (Plain ''u'') (no_options\<lparr>cache := Some ''no-store''\<rparr>) 0))
   \<and> isl (attempt (net_dead (Plain ''u'') (no_options\<lparr>cache := Some ''no-store''\<rparr>) 1))
   \<and> attempt (net_dead (Plain ''u'') (no_options\<lparr>cache := Some ''no-store''\<rparr>) 2)
         = Inl (HttpError 503 ''Server Error'')
   \<and> fst (fetchWithRetry net_dead (Plain ''u'') no_options default_retries)
         = Threw (HttpError 503 ''Server Error'')"
proof -
  have last: "attempt (net_dead (Plain ''u'') (no_options\<lparr>cache := Some ''no-store''\<rparr>) (3 - 1))
                = Inl (HttpError 503 ''Server Error'')"
    by (simp add: net_dead_def attempt_def ok_def server_error_def)
  have all: "\<forall>k<3. isl (attempt (net_dead (Plain ''u'') (no_options\<lparr>cache := Some ''no-store''\<rparr>) k))"
    by (simp add: net_dead_def attempt_def ok_def server_error_def)
  have pos: "(0::nat) < 3" by simp
  from fetchWithRetry_exhausted_throws_last_cause
         [where net = net_dead and url = "Plain ''u''" and options = no_options, OF pos all last]
       all last
  show ?thesis by (simp add: default_retries_def)
qed

lemma request_failed_attempt: "request_failed out \<Longrightarrow> isl (attempt out)"
  by (cases out) (auto simp: attempt_def ok_def)

lemma request_answered_attempt:
  "200 \<le> status r \<Longrightarrow> status r \<le> 299 \<Longrightarrow> json r = Inr payload \<Longrightarrow>
   attempt (Resolved r) = Inr payload"
  by (simp add: attempt_def ok_def)

text \<open>
  Claim C5. A run never issues more than \<open>retries\<close> fetches; the delays it sleeps are
  400, 800, 1200, ... in this order (400 times the one-based number of the attempt that
  just failed); and when the first and the second fetch fail (the fetch rejects, or the
  response has a status outside 200 to 299, whatever its body, or its body is not JSON)
  and the third is answered with a status from 200 to 299 and a JSON body, a run with at
  least three attempts allowed returns that body after sleeping 400 and then 800
  milliseconds.
\<close>

theorem fetchWithRetry_attempts_and_backoff:
  "attempts_made (snd (fetchWithRetry net url options retries)) \<le> retries
   \<and> (\<exists>n. waits_of (snd (fetchWithRetry net url options retries))
            = map (\<lambda>i. 400 * (i + 1)) [0 ..< n])
   \<and> (3 \<le> retries
        \<and> request_failed (net url (options\<lparr>cache := Some ''no-store''\<rparr>) 0)
        \<and> request_failed (net url (options\<lparr>cache := Some ''no-store''\<rparr>) 1)
        \<and> net url (options\<lparr>cache := Some ''no-store''\<rparr>) 2 = Resolved r
        \<and> 200 \<le> status r \<and> status r \<le> 299 \<and> json r = Inr payload
      \<longrightarrow> fetchWithRetry net url options retries
            = (Returned payload, [Fetch 0, Wait 400, Fetch 1, Wait 800, Fetch 2]))"
proof (intro conjI impI)
  show "attempts_made (snd (fetchWithRetry net url options retries)) \<le> retries"
    using loop_attempts_le [of net url "options\<lparr>cache := Some ''no-store''\<rparr>" retries 0]
    by (simp add: fetchWithRetry_def)
next
  show "\<exists>n. waits_of (snd (fetchWithRetry net url options retries))
              = map (\<lambda>i. 400 * (i + 1)) [0 ..< n]"
    using loop_waits_linear [of net url "options\<lparr>cache := Some ''no-store''\<rparr>" retries 0]
    by (simp add: fetchWithRetry_def)
next
  let ?o = "options\<lparr>cache := Some ''no-store''\<rparr>"
  assume h: "3 \<le> retries \<and> request_failed (net url ?o 0) \<and> request_failed (net url ?o 1)
             \<and> net url ?o 2 = Resolved r
             \<and> 200 \<le> status r \<and> status r \<le> 299 \<and> json r = Inr payload"
  then have "isl (attempt (net url ?o 0))" and "isl (attempt (net url ?o 1))"
    by (simp_all add: request_failed_attempt)
  then obtain e0 e1 where e0: "attempt (net url ?o 0) = Inl e0"
    and e1: "attempt (net url ?o 1) = Inl e1"
    by (cases "attempt (net url ?o 0)"; cases "attempt (net url ?o 1)") auto
  from h have third: "attempt (net url ?o 2) = Inr payload"
    by (simp add: request_answered_attempt)
  from h have rs: "0 < retries" "1 < retries" "2 < retries" "0 \<noteq> retries - 1" "1 \<noteq> retries - 1"
    by arith+
  have s2: "fetchWithRetry_loop net url ?o retries 2 = (Returned payload, [Fetch 2])"
    using loop_success [where net = net and url = url and opts = ?o, OF rs(3)] third by simp
  have s1: "fetchWithRetry_loop net url ?o retries 1
              = (Returned payload, [Fetch 1, Wait 800, Fetch 2])"
    using loop_retry [where net = net and url = url and opts = ?o, OF rs(2) e1 rs(5)] s2
    by (simp add: numeral_2_eq_2)
  have s0: "fetchWithRetry_loop net url ?o retries 0
              = (Returned payload, [Fetch 0, Wait 400, Fetch 1, Wait 800, Fetch 2])"
    using loop_retry [where net = net and url = url and opts = ?o, OF rs(1) e0 rs(4)] s1
    by simp
  then show "fetchWithRetry net url options retries
               = (Returned payload, [Fetch 0, Wait 400, Fetch 1, Wait 800, Fetch 2])"
    by (simp add: fetchWithRetry_def)
qed

theorem fetchWithRetry_attempts_and_backoff_witness:
  "net_flaky (Plain ''u'') (no_options\<lparr>cache := Some ''no-store''\<rparr>) 0
     = Rejected (NetworkError ''Failed to fetch'')
   \<and> net_flaky (Plain ''u'') (no_options\<lparr>cache := Some ''no-store''\<rparr>) 1
     = Resolved \<lparr>status = 503, statusText = ''Server Error'', json = Inr 7\<rparr>
   \<and> net_flaky (Plain ''u'') (no_options\<lparr>cache := Some ''no-store''\<rparr>) 2
     = Resolved \<lparr>status = 200, statusText = ''OK'', json = Inr 42\<rparr>
   \<and> fetchWithRetry net_flaky (Plain ''u'') no_options default_retries
       = (Returned 42, [Fetch 0, Wait 400, Fetch 1, Wait 800, Fetch 2])
   \<and> attempts_made (snd (fetchWithRetry net_flaky (Plain ''u'') no_options default_retries)) \<le> 3"
proof -
  let ?o = "no_options\<lparr>cache := Some ''no-store''\<rparr>"
  have a: "net_flaky (Plain ''u'') ?o 0 = Rejected (NetworkError ''Failed to fetch'')"
    "net_flaky (Plain ''u'') ?o 1
       = Resolved \<lparr>status = 503, statusText = ''Server Error'', json = Inr 7\<rparr>"
    "net_flaky (Plain ''u'') ?o 2 = Resolved \<lparr>status = 200, statusText = ''OK'', json = Inr 42\<rparr>"
    by (simp_all add: net_flaky_def server_error_def)
  from fetchWithRetry_attempts_and_backoff
         [of net_flaky "Plain ''u''" no_options default_retries
             "\<lparr>status = 200, statusText = ''OK'', json = Inr 42\<rparr>" 42] a
  show ?thesis by (simp add: default_retries_def attempts_made_def)
qed

section \<open>Properties of the rate limiter\<close>

text \<open>
  Claim C6. A call that finds less than 1000 ms elapsed since the last recorded call asks
  for a delay of exactly 1000 minus the elapsed time (and resumes that much later, plus
  the scheduler's lateness); otherwise it sleeps not at all. In both cases the time
  stamp it records is the clock at the moment it lets its caller go on, and the request
  that follows, however long it takes, does not change it.
\<close>

theorem rateLimitMusicBrainz_delay_and_stamp:
  "(clock s - lastMusicBrainzRequest s < 1000 \<longrightarrow>
      slept (rateLimitMusicBrainz late s)
        = slept s @ [1000 - (clock s - lastMusicBrainzRequest s)]
      \<and> clock (rateLimitMusicBrainz late s)
        = clock s + (1000 - (clock s - lastMusicBrainzRequest s)) + int late)
   \<and> (\<not> clock s - lastMusicBrainzRequest s < 1000 \<longrightarrow>
      slept (rateLimitMusicBrainz late s) = slept s
      \<and> clock (rateLimitMusicBrainz late s) = clock s)
   \<and> lastMusicBrainzRequest (rateLimitMusicBrainz late s) = clock (rateLimitMusicBrainz late s)
   \<and> lastMusicBrainzRequest (musicbrainz_request late latency s)
        = clock (rateLimitMusicBrainz late s)"
  by (simp add: rateLimitMusicBrainz_def musicbrainz_request_def rateLimit_delay_def
        sleep_def MUSICBRAINZ_RATE_LIMIT_def Let_def)

theorem rateLimitMusicBrainz_delay_and_stamp_witness:
  "slept (rateLimitMusicBrainz 0 \<lparr>clock = 5300, lastMusicBrainzRequest = 5000, slept = []\<rparr>) = [700]
   \<and> clock (rateLimitMusicBrainz 0 \<lparr>clock = 5300, lastMusicBrainzRequest = 5000, slept = []\<rparr>) = 6000
   \<and> lastMusicBrainzRequest
        (musicbrainz_request 0 250 \<lparr>clock = 5300, lastMusicBrainzRequest = 5000, slept = []\<rparr>) = 6000
   \<and> slept (rateLimitMusicBrainz 0 \<lparr>clock = 6000, lastMusicBrainzRequest = 5000, slept = []\<rparr>) = []
   \<and> clock (rateLimitMusicBrainz 0 \<lparr>clock = 6000, lastMusicBrainzRequest = 5000, slept = []\<rparr>) = 6000
   \<and> lastMusicBrainzRequest
        (rateLimitMusicBrainz 0 \<lparr>clock = 6000, lastMusicBrainzRequest = 5000, slept = []\<rparr>) = 6000"
  using rateLimitMusicBrainz_delay_and_stamp
          [of "\<lparr>clock = 5300, lastMusicBrainzRequest = 5000, slept = []\<rparr>" 0 250]
        rateLimitMusicBrainz_delay_and_stamp
          [of "\<lparr>clock = 6000, lastMusicBrainzRequest = 5000, slept = []\<rparr>" 0 0]
  by simp

lemma rateLimit_calls_one_at_a_time_spaced:
  "admissions [(5000, 0), (5200, 1), (7000, 2)] [] 0 = [(0, 5000), (1, 6000), (2, 7000)]
   \<and> spaced (map snd (admissions [(5000, 0), (5200, 1), (7000, 2)] [] 0))"
  by (simp add: rateLimit_delay_def MUSICBRAINZ_RATE_LIMIT_def)

text \<open>
  Claim C3, evaluated. On a freshly loaded page \<open>lastMusicBrainzRequest\<close> is 0, and the
  music branch makes its three calls at time 1700000000000. The first is admitted at
  once; the second and the third both find 0 ms elapsed, both sleep 1000 ms, and both
  are admitted at 1700000001000: two admissions 0 ms apart.
\<close>

theorem rateLimit_concurrent_calls_admitted_together:
  "admissions (music_branch_calls 1700000000000) [] 0
     = [(0, 1700000000000), (1, 1700000001000), (2, 1700000001000)]
   \<and> \<not> spaced (map snd (admissions (music_branch_calls 1700000000000) [] 0))"
  by (simp add: music_branch_calls_def rateLimit_delay_def MUSICBRAINZ_RATE_LIMIT_def)

section \<open>Properties of the aggregator\<close>

lemma fetchWithRetry_first_success:
  "attempt (net u (opts\<lparr>cache := Some ''no-store''\<rparr>) 0) = Inr body \<Longrightarrow>
   fetchWithRetry net u opts default_retries = (Returned body, [Fetch 0])"
  by (simp add: fetchWithRetry_def default_retries_def loop_success)

lemma fetchWithRetry_responds:
  "fetchWithRetry (responds body) u opts default_retries = (Returned body, [Fetch 0])"
  by (rule fetchWithRetry_first_success) (simp add: responds_def attempt_def ok_def)

lemma fetchWithRetry_unreachable:
  "fst (fetchWithRetry unreachable u opts default_retries)
     = Threw (NetworkError ''Failed to fetch'')"
proof -
  have "fst (fetchWithRetry_loop unreachable u (opts\<lparr>cache := Some ''no-store''\<rparr>) 3 0)
          = Threw (NetworkError ''Failed to fetch'')"
    by (rule loop_all_fail) (simp_all add: unreachable_def attempt_def)
  then show ?thesis by (simp add: fetchWithRetry_def default_retries_def)
qed

lemma js_slice_take: "0 \<le> n \<Longrightarrow> js_slice 0 n xs = take (nat n) xs"
  by (auto simp: js_slice_def Let_def min_def)

lemma promise_all2_fulfilled: "promise_all2 settled (Inr x) (Inr y) = Inr (x, y)"
  by (simp add: promise_all2_def rejection_def)

lemma promise_all2_first_only: "promise_all2 settled (Inl e) (Inr y) = Inl e"
  by (simp add: promise_all2_def rejection_def)

lemma promise_all2_rejects:
  "isl p \<or> isl q \<Longrightarrow> isl (promise_all2 settled p q)"
  by (cases p; cases q) (simp_all add: promise_all2_def rejection_def)

lemma promise_all3_rejects:
  "isl p \<or> isl q \<or> isl r \<Longrightarrow> isl (promise_all3 settled p q r)"
  by (cases p; cases q; cases r) (simp_all add: promise_all3_def rejection_def)

lemma art_try_search_fails:
  "isl (fst (searchMetArtifacts a query True))
   \<or> isl (fst (searchClevelandArtifacts a query 100)) \<Longrightarrow>
   isl (fst (art_try a query m))"
proof -
  assume "isl (fst (searchMetArtifacts a query True))
          \<or> isl (fst (searchClevelandArtifacts a query 100))"
  then have "isl (promise_all2 (art_settled a) (fst (searchMetArtifacts a query True))
                    (fst (searchClevelandArtifacts a query 100)))"
    by (rule promise_all2_rejects)
  then show ?thesis
    by (auto simp: art_try_def Let_def split: sum.splits)
qed

lemma art_try_met_alone_fails:
  "fst (searchMetArtifacts a query True) = Inl e \<Longrightarrow>
   fst (searchClevelandArtifacts a query 100) = Inr clevelandData \<Longrightarrow>
   fst (art_try a query m) = Inl e"
  by (simp add: art_try_def promise_all2_first_only Let_def)

lemma art_try_succeeds:
  "fst (searchMetArtifacts a query True) = Inr metIds \<Longrightarrow>
   fst (searchClevelandArtifacts a query 100) = Inr clevelandData \<Longrightarrow>
   art_try a query m =
     (Inr (js_slice 0 m (map FromCleveland clevelandData
                          @ map FromMet (fst (getMetObjects a (js_slice 0 10 metIds))))),
      snd (searchMetArtifacts a query True) @ snd (searchClevelandArtifacts a query 100)
        @ snd (getMetObjects a (js_slice 0 10 metIds)))"
  by (simp add: art_try_def promise_all2_fulfilled Let_def)

lemma art_branch_failed:
  "fst (art_try a query m) = Inl e \<Longrightarrow>
   art_branch a query m g =
     g\<lparr>console := console g @ [ConsoleError ''Art search failed:'' e],
       requests := requests g @ snd (art_try a query m)\<rparr>"
  by (simp add: art_branch_def Let_def)

lemma art_branch_found:
  "fst (art_try a query m) = Inr found \<Longrightarrow>
   art_branch a query m g =
     g\<lparr>results := (results g)\<lparr>artifacts := found\<rparr>,
       requests := requests g @ snd (art_try a query m)\<rparr>"
  by (simp add: art_branch_def Let_def)

lemma music_branch_keeps_artifacts:
  "artifacts (results (music_branch a query g)) = artifacts (results g)"
  by (simp add: music_branch_def Let_def split: sum.splits prod.splits)

lemma music_branch_keeps_console:
  "set (console g) \<subseteq> set (console (music_branch a query g))"
  by (auto simp: music_branch_def Let_def split: sum.splits prod.splits)

lemma art_branch_keeps_music:
  "recordings (results (art_branch a query m g)) = recordings (results g)"
  "artists (results (art_branch a query m g)) = artists (results g)"
  "instruments (results (art_branch a query m g)) = instruments (results g)"
  by (simp_all add: art_branch_def Let_def split: sum.splits)

lemma art_branch_artifacts:
  "artifacts (results (art_branch a query m g))
     = (case fst (art_try a query m) of Inr found \<Rightarrow> found | Inl e \<Rightarrow> artifacts (results g))"
  by (simp add: art_branch_def Let_def split: sum.splits)

lemma art_branch_logs:
  "fst (art_try a query m) = Inl e \<Longrightarrow>
   ConsoleError ''Art search failed:'' e \<in> set (console (art_branch a query m g))"
  by (simp add: art_branch_failed)

lemma music_try_fails:
  "isl (fst (searchMusicBrainzArtists a query 15 0))
   \<or> isl (fst (searchMusicBrainzRecordings a query 15 0))
   \<or> isl (fst (searchMusicBrainzInstruments a query 10 0)) \<Longrightarrow>
   isl (fst (music_try a query))"
  by (simp add: music_try_def Let_def promise_all3_rejects)

lemma music_branch_failed:
  "fst (music_try a query) = Inl e \<Longrightarrow>
   music_branch a query g =
     g\<lparr>console := console g @ [ConsoleError ''Music search failed:'' e],
       requests := requests g @ snd (music_try a query)\<rparr>"
  by (simp add: music_branch_def Let_def)

lemma met_object_requests_append:
  "met_object_requests (xs @ ys) = met_object_requests xs @ met_object_requests ys"
  by (induction xs rule: met_object_requests.induct) auto

lemma getMetObjects_requests: "met_object_requests (snd (getMetObjects a ids)) = ids"
  by (induction ids) (simp_all add: getMetObjects_def getMetObject_def Let_def)

lemma search_requests_no_objects:
  "met_object_requests (snd (searchMetArtifacts a query h)) = []"
  "met_object_requests (snd (searchClevelandArtifacts a query l)) = []"
  by (simp_all add: searchMetArtifacts_def searchClevelandArtifacts_def Let_def)

lemma met_down_searches:
  "fst (searchMetArtifacts api_met_down q True) = Inl (NetworkError ''Failed to fetch'')"
  "fst (searchClevelandArtifacts api_met_down q 100)
     = Inr [\<lparr>artwork_id = 1\<rparr>, \<lparr>artwork_id = 2\<rparr>]"
  by (simp_all add: searchMetArtifacts_def searchClevelandArtifacts_def api_met_down_def
        fetchWithRetry_unreachable fetchWithRetry_responds read_data_def or_empty_def Let_def)

text \<open>
  Claim C1, evaluated. The Met search cannot be reached (each of its three fetches
  rejects) and the Cleveland search finds two artworks. The \<open>Promise.all\<close> of the art
  branch rejects, the \<open>catch\<close> prints the failure, and the call returns with
  \<open>artifacts\<close> at its initial value, the empty array: the two Cleveland artworks are
  not in the result. No exception reaches the caller.
\<close>

theorem searchAllSources_met_down_loses_cleveland_items:
  "fst (searchMetArtifacts api_met_down ''luba'' True) = Inl (NetworkError ''Failed to fetch'')
   \<and> fst (searchClevelandArtifacts api_met_down ''luba'' 100)
       = Inr [\<lparr>artwork_id = 1\<rparr>, \<lparr>artwork_id = 2\<rparr>]
   \<and> fst (searchAllSources api_met_down ''luba''
             \<lparr>includeArt = Some True, includeMusic = Some False, maxResults = None\<rparr>)
       = Returned \<lparr>artifacts = [], recordings = [], artists = [], instruments = []\<rparr>
   \<and> FromCleveland \<lparr>artwork_id = 1\<rparr>
       \<notin> set (artifacts (results (snd (searchAllSources api_met_down ''luba''
             \<lparr>includeArt = Some True, includeMusic = Some False, maxResults = None\<rparr>))))
   \<and> console (snd (searchAllSources api_met_down ''luba''
             \<lparr>includeArt = Some True, includeMusic = Some False, maxResults = None\<rparr>))
       = [ConsoleError ''Art search failed:'' (NetworkError ''Failed to fetch'')]"
proof -
  have t: "fst (art_try api_met_down ''luba'' 50) = Inl (NetworkError ''Failed to fetch'')"
    using met_down_searches(1) met_down_searches(2) by (rule art_try_met_alone_fails)
  show ?thesis
    using met_down_searches [of "''luba''"]
    by (simp add: searchAllSources_def Let_def art_branch_failed [OF t])
qed

text \<open>
  Claim C7. With only the art branch on and \<open>maxResults = 5\<close>, when Cleveland returns
  three artworks and the Met search returns its IDs: the artifacts are the first five of
  the Cleveland artworks followed by the Met objects (so at most five, the three
  Cleveland artworks first, then two Met objects at most); object details are requested
  for the first ten Met IDs and no others; and the three music sequences are empty.
\<close>

theorem searchAllSources_art_only_scenario:
  assumes "includeArt options = Some True"
    and "includeMusic options = Some False"
    and "maxResults options = Some 5"
    and "fst (searchClevelandArtifacts a query 100) = Inr clevelandData"
    and "length clevelandData = 3"
    and "fst (searchMetArtifacts a query True) = Inr metIds"
  shows "\<exists>r g. searchAllSources a query options = (Returned r, g)
           \<and> artifacts r = take 5 (map FromCleveland clevelandData
                                    @ map FromMet (fst (getMetObjects a (take 10 metIds))))
           \<and> length (artifacts r) \<le> 5
           \<and> artifacts r = map FromCleveland clevelandData
                            @ map FromMet (take 2 (fst (getMetObjects a (take 10 metIds))))
           \<and> met_object_requests (requests g) = take 10 metIds
           \<and> recordings r = [] \<and> artists r = [] \<and> instruments r = []"
proof -
  let ?g0 = "\<lparr>results = \<lparr>artifacts = [], recordings = [], artists = [], instruments = []\<rparr>,
              console = [], requests = []\<rparr>"
  let ?objs = "fst (getMetObjects a (take 10 metIds))"
  let ?found = "take 5 (map FromCleveland clevelandData @ map FromMet ?objs)"
  have ten: "js_slice 0 10 metIds = take 10 metIds"
    by (simp add: js_slice_take)
  have t: "art_try a query 5 =
     (Inr ?found,
      snd (searchMetArtifacts a query True) @ snd (searchClevelandArtifacts a query 100)
        @ snd (getMetObjects a (take 10 metIds)))"
    using art_try_succeeds [OF assms(6) assms(4), of 5] by (simp add: ten js_slice_take)
  have run: "searchAllSources a query options = (Returned (results (art_branch a query 5 ?g0)),
                                                 art_branch a query 5 ?g0)"
    using assms(1-3) by (simp add: searchAllSources_def Let_def)
  have g: "art_branch a query 5 ?g0 =
             ?g0\<lparr>results := (results ?g0)\<lparr>artifacts := ?found\<rparr>,
                 requests := requests ?g0 @ snd (art_try a query 5)\<rparr>"
    by (rule art_branch_found) (simp add: t)
  have shape: "?found = map FromCleveland clevelandData @ map FromMet (take 2 ?objs)"
    using assms(5) by (simp add: take_map)
  have reqs: "met_object_requests (requests (art_branch a query 5 ?g0)) = take 10 metIds"
    by (simp add: g t met_object_requests_append search_requests_no_objects
          getMetObjects_requests)
  have arts: "artifacts (results (art_branch a query 5 ?g0)) = ?found"
    by (simp add: g)
  have others: "recordings (results (art_branch a query 5 ?g0)) = []"
    "artists (results (art_branch a query 5 ?g0)) = []"
    "instruments (results (art_branch a query 5 ?g0)) = []"
    by (simp_all add: art_branch_keeps_music)
  have len: "length ?found \<le> 5" by simp
  show ?thesis
    unfolding run using arts shape reqs others len by (metis)
qed

lemma both_up_searches:
  "fst (searchClevelandArtifacts api_both_up q 100)
     = Inr [\<lparr>artwork_id = 1\<rparr>, \<lparr>artwork_id = 2\<rparr>, \<lparr>artwork_id = 3\<rparr>]"
  "fst (searchMetArtifacts api_both_up q True)
     = Inr [101, 102, 103, 104, 105, 106, 107, 108, 109, 110, 111, 112]"
  by (simp_all add: searchMetArtifacts_def searchClevelandArtifacts_def api_both_up_def
        fetchWithRetry_responds read_data_def or_empty_def Let_def)

lemma both_up_objects:
  "fst (getMetObject api_both_up n) = Inr (Some \<lparr>objectID = n, primaryImage = ''jpg''\<rparr>)"
proof -
  have "fetchWithRetry met_picture (Path met_object_endpoint n) no_options default_retries
          = (Returned (Some \<lparr>objectID = n, primaryImage = ''jpg''\<rparr>), [Fetch 0])"
    by (rule fetchWithRetry_first_success)
       (simp add: met_picture_def responds_def attempt_def ok_def)
  then show ?thesis
    by (simp add: getMetObject_def api_both_up_def Let_def)
qed

theorem searchAllSources_art_only_scenario_witness:
  "fst (searchClevelandArtifacts api_both_up ''luba'' 100)
     = Inr [\<lparr>artwork_id = 1\<rparr>, \<lparr>artwork_id = 2\<rparr>, \<lparr>artwork_id = 3\<rparr>]
   \<and> fst (searchMetArtifacts api_both_up ''luba'' True)
     = Inr [101, 102, 103, 104, 105, 106, 107, 108, 109, 110, 111, 112]
   \<and> fst (searchAllSources api_both_up ''luba''
            \<lparr>includeArt = Some True, includeMusic = Some False, maxResults = Some 5\<rparr>)
     = Returned \<lparr>artifacts = [FromCleveland \<lparr>artwork_id = 1\<rparr>, FromCleveland \<lparr>artwork_id = 2\<rparr>,
                              FromCleveland \<lparr>artwork_id = 3\<rparr>,
                              FromMet \<lparr>objectID = 101, primaryImage = ''jpg''\<rparr>,
                              FromMet \<lparr>objectID = 102, primaryImage = ''jpg''\<rparr>],
                 recordings = [], artists = [], instruments = []\<rparr>
   \<and> met_object_requests (requests (snd (searchAllSources api_both_up ''luba''
            \<lparr>includeArt = Some True, includeMusic = Some False, maxResults = Some 5\<rparr>)))
     = [101, 102, 103, 104, 105, 106, 107, 108, 109, 110]"
proof -
  let ?o = "\<lparr>includeArt = Some True, includeMusic = Some False, maxResults = Some 5\<rparr>"
  have objs: "take 2 (fst (getMetObjects api_both_up
                 (take 10 [101, 102, 103, 104, 105, 106, 107, 108, 109, 110, 111, 112])))
                = [\<lparr>objectID = 101, primaryImage = ''jpg''\<rparr>,
                   \<lparr>objectID = 102, primaryImage = ''jpg''\<rparr>]"
    by (simp add: getMetObjects_def both_up_objects List.map_filter_simps fulfilled_value_def
          with_image_def Let_def)
  from searchAllSources_art_only_scenario
         [of ?o api_both_up "''luba''"
             "[\<lparr>artwork_id = 1\<rparr>, \<lparr>artwork_id = 2\<rparr>, \<lparr>artwork_id = 3\<rparr>]"
             "[101, 102, 103, 104, 105, 106, 107, 108, 109, 110, 111, 112]"]
       both_up_searches [of "''luba''"]
  obtain r g where rg: "searchAllSources api_both_up ''luba'' ?o = (Returned r, g)"
    and arts: "artifacts r
                 = map FromCleveland [\<lparr>artwork_id = 1\<rparr>, \<lparr>artwork_id = 2\<rparr>, \<lparr>artwork_id = 3\<rparr>]
                   @ map FromMet (take 2 (fst (getMetObjects api_both_up
                       (take 10 [101, 102, 103, 104, 105, 106, 107, 108, 109, 110, 111, 112]))))"
    and reqs: "met_object_requests (requests g)
                 = take 10 [101, 102, 103, 104, 105, 106, 107, 108, 109, 110, 111, 112]"
    and rest: "recordings r = []" "artists r = []" "instruments r = []"
    by auto
  have "r = \<lparr>artifacts = [FromCleveland \<lparr>artwork_id = 1\<rparr>, FromCleveland \<lparr>artwork_id = 2\<rparr>,
                           FromCleveland \<lparr>artwork_id = 3\<rparr>,
                           FromMet \<lparr>objectID = 101, primaryImage = ''jpg''\<rparr>,
                           FromMet \<lparr>objectID = 102, primaryImage = ''jpg''\<rparr>],
              recordings = [], artists = [], instruments = []\<rparr>"
    using arts rest unfolding objs by (cases r) simp
  with rg reqs both_up_searches [of "''luba''"] show ?thesis by simp
qed

text \<open>
  Claim C8. Every call returns (it never throws) a record of the four sequences. When a
  search of the art branch fails, \<open>artifacts\<close> is empty; when a search of the music
  branch fails, \<open>recordings\<close>, \<open>artists\<close> and \<open>instruments\<close> are empty; and the failure
  of a branch that was run is printed on the console.
\<close>

theorem searchAllSources_never_throws:
  "\<exists>r. fst (searchAllSources a query options) = Returned r
     \<and> (isl (fst (searchMetArtifacts a query True))
          \<or> isl (fst (searchClevelandArtifacts a query 100))
        \<longrightarrow> artifacts r = []
            \<and> (includeArt options \<noteq> Some False
                 \<longrightarrow> (\<exists>e. ConsoleError ''Art search failed:'' e
                           \<in> set (console (snd (searchAllSources a query options))))))
     \<and> (isl (fst (searchMusicBrainzArtists a query 15 0))
          \<or> isl (fst (searchMusicBrainzRecordings a query 15 0))
          \<or> isl (fst (searchMusicBrainzInstruments a query 10 0))
        \<longrightarrow> recordings r = [] \<and> artists r = [] \<and> instruments r = []
            \<and> (includeMusic options \<noteq> Some False
                 \<longrightarrow> (\<exists>e. ConsoleError ''Music search failed:'' e
                           \<in> set (console (snd (searchAllSources a query options))))))"
proof -
  let ?m = "case maxResults options of Some n \<Rightarrow> n | None \<Rightarrow> 50"
  let ?art = "case includeArt options of Some b \<Rightarrow> b | None \<Rightarrow> True"
  let ?music = "case includeMusic options of Some b \<Rightarrow> b | None \<Rightarrow> True"
  let ?g0 = "\<lparr>results = \<lparr>artifacts = [], recordings = [], artists = [], instruments = []\<rparr>,
              console = [], requests = []\<rparr>"
  define g1 where "g1 = (if ?art then art_branch a query ?m ?g0 else ?g0)"
  define g2 where "g2 = (if ?music then music_branch a query g1 else g1)"
  have run: "searchAllSources a query options = (Returned (results g2), g2)"
    by (simp add: searchAllSources_def Let_def g1_def g2_def)
  have music_g1: "recordings (results g1) = []" "artists (results g1) = []"
    "instruments (results g1) = []"
    by (simp_all add: g1_def art_branch_keeps_music)
  have art: "artifacts (results g2) = []
             \<and> (includeArt options \<noteq> Some False
                  \<longrightarrow> (\<exists>e. ConsoleError ''Art search failed:'' e \<in> set (console g2)))"
    if f: "isl (fst (searchMetArtifacts a query True))
           \<or> isl (fst (searchClevelandArtifacts a query 100))"
  proof -
    from f have "isl (fst (art_try a query ?m))" by (rule art_try_search_fails)
    then obtain e where e: "fst (art_try a query ?m) = Inl e"
      by (cases "fst (art_try a query ?m)") auto
    have a1: "artifacts (results g1) = []"
      by (simp add: g1_def art_branch_artifacts e)
    have a2: "artifacts (results g2) = []"
      by (simp add: g2_def music_branch_keeps_artifacts a1)
    have "ConsoleError ''Art search failed:'' e \<in> set (console g1)" if "?art"
      using that art_branch_logs [OF e] by (simp add: g1_def)
    then have "ConsoleError ''Art search failed:'' e \<in> set (console g2)" if "?art"
      using that music_branch_keeps_console [of g1 a query] by (auto simp: g2_def)
    moreover have "?art" if "includeArt options \<noteq> Some False"
      using that by (cases "includeArt options") auto
    ultimately show ?thesis using a2 by blast
  qed
  have music: "recordings (results g2) = [] \<and> artists (results g2) = []
               \<and> instruments (results g2) = []
               \<and> (includeMusic options \<noteq> Some False
                    \<longrightarrow> (\<exists>e. ConsoleError ''Music search failed:'' e \<in> set (console g2)))"
    if f: "isl (fst (searchMusicBrainzArtists a query 15 0))
           \<or> isl (fst (searchMusicBrainzRecordings a query 15 0))
           \<or> isl (fst (searchMusicBrainzInstruments a query 10 0))"
  proof -
    from f have "isl (fst (music_try a query))" by (rule music_try_fails)
    then obtain e where e: "fst (music_try a query) = Inl e"
      by (cases "fst (music_try a query)") auto
    have fields: "recordings (results g2) = []" "artists (results g2) = []"
      "instruments (results g2) = []"
      by (simp_all add: g2_def music_branch_failed [OF e] music_g1)
    have "ConsoleError ''Music search failed:'' e \<in> set (console g2)" if "?music"
      using that by (simp add: g2_def music_branch_failed [OF e])
    moreover have "?music" if "includeMusic options \<noteq> Some False"
      using that by (cases "includeMusic options") auto
    ultimately show ?thesis using fields by blast
  qed
  show ?thesis
    unfolding run using art music by auto
qed

lemma music_down_searches:
  "fst (searchMetArtifacts api_music_down q True) = Inr []"
  "fst (searchClevelandArtifacts api_music_down q 100)
     = Inr [\<lparr>artwork_id = 1\<rparr>, \<lparr>artwork_id = 2\<rparr>]"
  "fst (searchMusicBrainzArtists api_music_down q 15 0) = Inl (NetworkError ''Failed to fetch'')"
  by (simp_all add: searchMetArtifacts_def searchClevelandArtifacts_def api_music_down_def
        searchMusicBrainzArtists_def musicbrainz_search_def
        fetchWithRetry_unreachable fetchWithRetry_responds read_data_def or_empty_def Let_def)

theorem searchAllSources_never_throws_witness:
  "isl (fst (searchMusicBrainzArtists api_music_down ''luba'' 15 0))
   \<and> fst (searchAllSources api_music_down ''luba''
            \<lparr>includeArt = None, includeMusic = None, maxResults = None\<rparr>)
       = Returned \<lparr>artifacts = [FromCleveland \<lparr>artwork_id = 1\<rparr>, FromCleveland \<lparr>artwork_id = 2\<rparr>],
                   recordings = [], artists = [], instruments = []\<rparr>
   \<and> (\<exists>e. ConsoleError ''Music search failed:'' e
            \<in> set (console (snd (searchAllSources api_music_down ''luba''
                  \<lparr>includeArt = None, includeMusic = None, maxResults = None\<rparr>))))"
proof -
  let ?o = "\<lparr>includeArt = None, includeMusic = None, maxResults = None\<rparr>"
  have down: "isl (fst (searchMusicBrainzArtists api_music_down ''luba'' 15 0))"
    by (simp add: music_down_searches)
  have t: "fst (art_try api_music_down ''luba'' 50)
             = Inr [FromCleveland \<lparr>artwork_id = 1\<rparr>, FromCleveland \<lparr>artwork_id = 2\<rparr>]"
    using art_try_succeeds [OF music_down_searches(1) music_down_searches(2), of "''luba''" 50]
    by (simp add: js_slice_take getMetObjects_def List.map_filter_simps)
  have arts: "artifacts (results (snd (searchAllSources api_music_down ''luba'' ?o)))
                = [FromCleveland \<lparr>artwork_id = 1\<rparr>, FromCleveland \<lparr>artwork_id = 2\<rparr>]"
    by (simp add: searchAllSources_def Let_def music_branch_keeps_artifacts
          art_branch_artifacts t)
  have ret: "fst (searchAllSources api_music_down ''luba'' ?o)
               = Returned (results (snd (searchAllSources api_music_down ''luba'' ?o)))"
    by (simp add: searchAllSources_def Let_def)
  from searchAllSources_never_throws [of api_music_down "''luba''" ?o] down
  obtain r where r: "fst (searchAllSources api_music_down ''luba'' ?o) = Returned r"
    and empty: "recordings r = []" "artists r = []" "instruments r = []"
    and logged: "\<exists>e. ConsoleError ''Music search failed:'' e
                   \<in> set (console (snd (searchAllSources api_music_down ''luba'' ?o)))"
    by auto
  from r ret arts have "artifacts r
      = [FromCleveland \<lparr>artwork_id = 1\<rparr>, FromCleveland \<lparr>artwork_id = 2\<rparr>]" by simp
  with empty have "r = \<lparr>artifacts = [FromCleveland \<lparr>artwork_id = 1\<rparr>,
                                      FromCleveland \<lparr>artwork_id = 2\<rparr>],
                        recordings = [], artists = [], instruments = []\<rparr>"
    by (cases r) simp
  with r down logged show ?thesis by simp
qed

section \<open>Properties of the debounce combinator\<close>

lemma timers_inv_initial: "timers_inv initial_timers"
  by (simp add: timers_inv_def initial_timers_def)

lemma timers_inv_call:
  assumes "timers_inv s"
  shows "timers_inv (call_debounced d args now s)"
proof (cases d)
  case (Debounced func delay)
  show ?thesis
    using assms unfolding Debounced
    by (cases "debounceTimer s")
       (auto simp: timers_inv_def setTimeout_def clearTimeout_def Let_def less_Suc_eq
             distinct_map_filter)
qed

lemma timers_inv_step: "timers_inv s \<Longrightarrow> timers_inv (timer_step e s)"
proof (cases e)
  case (Call d args now)
  assume "timers_inv s"
  then show ?thesis unfolding Call by (simp add: timers_inv_call)
next
  case (Fire h)
  assume "timers_inv s"
  then show ?thesis unfolding Fire
    by (auto simp: timers_inv_def fire_def distinct_map_filter)
next
  case ClearSearch
  assume "timers_inv s"
  then show ?thesis unfolding ClearSearch
    by (cases "debounceTimer s")
       (auto simp: timers_inv_def clearTimeout_def distinct_map_filter)
next
  case (OtherSetTimeout delay now)
  assume "timers_inv s"
  then show ?thesis unfolding OtherSetTimeout
    by (auto simp: timers_inv_def setTimeout_def less_Suc_eq)
qed

lemma timers_inv_run: "timers_inv s \<Longrightarrow> timers_inv (run_timers es s)"
  by (induction es arbitrary: s) (simp_all add: timers_inv_step)

lemma call_debounced_leaves_one:
  assumes "timers_inv s"
  shows "pending_debounced (call_debounced (Debounced func delay) args now s)
           = [(next_handle s, now + delay, Apply func args)]"
proof -
  have "filter is_debounced (filter (\<lambda>t. fst t \<noteq> i) (pending s)) = []"
    if "debounceTimer s = Some i" for i
    using assms that by (auto simp: timers_inv_def filter_empty_conv)
  moreover have "filter is_debounced (pending s) = []" if "debounceTimer s = None"
    using assms that by (auto simp: timers_inv_def filter_empty_conv)
  ultimately show ?thesis
    by (cases "debounceTimer s")
       (simp_all add: pending_debounced_def setTimeout_def clearTimeout_def Let_def)
qed

lemma at_most_one_with_handle:
  "distinct (map fst xs) \<Longrightarrow> (\<forall>t \<in> set xs. P t \<longrightarrow> fst t = i) \<Longrightarrow>
   length (filter P xs) \<le> 1"
proof (induction xs)
  case Nil
  then show ?case by simp
next
  case (Cons x xs)
  show ?case
  proof (cases "P x")
    case False
    with Cons show ?thesis by simp
  next
    case True
    with Cons.prems have "fst x = i" by simp
    have "\<not> P t" if "t \<in> set xs" for t
    proof
      assume "P t"
      with Cons.prems that have "fst t = i" by simp
      with \<open>fst x = i\<close> have same: "fst t = fst x" by simp
      from that have "fst t \<in> fst ` set xs" by (rule imageI)
      then have "fst x \<in> fst ` set xs" unfolding same .
      with Cons.prems(1) show False by simp
    qed
    then have "\<forall>t \<in> set xs. \<not> P t" by blast
    then have "filter P xs = []" by (simp add: filter_empty_conv)
    with True show ?thesis by simp
  qed
qed

lemma timers_inv_at_most_one:
  assumes "timers_inv s"
  shows "length (pending_debounced s) \<le> 1"
proof (cases "debounceTimer s")
  case None
  with assms have "filter is_debounced (pending s) = []"
    by (auto simp: timers_inv_def filter_empty_conv)
  then show ?thesis by (simp add: pending_debounced_def)
next
  case (Some i)
  with assms have "distinct (map fst (pending s))"
    and "\<forall>t \<in> set (pending s). is_debounced t \<longrightarrow> fst t = i"
    by (auto simp: timers_inv_def)
  then show ?thesis
    unfolding pending_debounced_def by (rule at_most_one_with_handle)
qed

text \<open>
  Claim C9. In every state the timer table can reach, and for any two debounced
  functions \<open>debounce f delay_f\<close> and \<open>debounce g delay_g\<close>: after a call of the first
  its invocation is the one pending debounced invocation; a call of the second then
  leaves its own invocation as the only one, so the invocation of \<open>f\<close> is cancelled.
  At no time is more than one debounced invocation pending.
\<close>

theorem debounce_shares_one_timer:
  "pending_debounced
     (call_debounced (debounce f delay_f) args_f now_f (run_timers es initial_timers))
     = [(next_handle (run_timers es initial_timers), now_f + delay_f, Apply f args_f)]
   \<and> pending_debounced
       (call_debounced (debounce g delay_g) args_g now_g
          (call_debounced (debounce f delay_f) args_f now_f (run_timers es initial_timers)))
     = [(next_handle (run_timers es initial_timers) + 1, now_g + delay_g, Apply g args_g)]
   \<and> length (pending_debounced (run_timers es initial_timers)) \<le> 1"
proof -
  let ?s = "run_timers es initial_timers"
  let ?s1 = "call_debounced (Debounced f delay_f) args_f now_f ?s"
  have inv: "timers_inv ?s"
    by (rule timers_inv_run) (rule timers_inv_initial)
  then have inv1: "timers_inv ?s1" by (rule timers_inv_call)
  have n1: "next_handle ?s1 = next_handle ?s + 1"
    by (simp add: setTimeout_def clearTimeout_def Let_def split: option.splits)
  show ?thesis
    unfolding debounce_def
    using call_debounced_leaves_one [OF inv, of f delay_f args_f now_f]
          call_debounced_leaves_one [OF inv1, of g delay_g args_g now_g]
          timers_inv_at_most_one [OF inv]
    by (simp add: n1 del: call_debounced.simps)
qed

theorem debounce_shares_one_timer_witness:
  "pending_debounced
     (call_debounced (debounce ''saveDraft'' 200) ''x'' 1100
        (call_debounced (debounce ''performSearch'' 500) ''lu'' 1000
           (run_timers [OtherSetTimeout 400 900] initial_timers)))
     = [(3, 1300, Apply ''saveDraft'' ''x'')]"
  using debounce_shares_one_timer
          [of "''performSearch''" 500 "''lu''" 1000 "[OtherSetTimeout 400 900]"
              "''saveDraft''" 200 "''x''" 1100]
  by (simp add: initial_timers_def setTimeout_def)

section \<open>Properties of the search controller\<close>

lemma displaySearchResults_keeps_store:
  "searchResults (displaySearchResults found opts s) = searchResults s"
  by (simp add: displaySearchResults_def set_status_def Let_def)

text \<open>
  Claim C2, evaluated. The result for \<open>lu\<close> arrives after \<open>luba\<close> has become the
  current query (and after its result was stored and shown). The page keeps showing
  the result for \<open>luba\<close>, but \<open>searchResults\<close> now holds the stale result for \<open>lu\<close>:
  the assignment comes before the staleness check, so whatever the current query is, a
  search that completes stores its result.
\<close>

theorem performSearch_stale_result_is_stored:
  "currentSearchQuery overlapping_searches = ''luba''
   \<and> container overlapping_searches = Cards [FromCleveland \<lparr>artwork_id = 2\<rparr>] []
   \<and> searchResults overlapping_searches = results_for_lu
   \<and> searchResults overlapping_searches \<noteq> results_for_luba
   \<and> searchResults (performSearch_resume query opts (Inr found) s) = found"
proof -
  have general: "searchResults (performSearch_resume query opts (Inr found) s) = found"
    by (simp add: performSearch_resume_def Let_def displaySearchResults_keeps_store)
  have concrete: "currentSearchQuery overlapping_searches = ''luba''
     \<and> container overlapping_searches = Cards [FromCleveland \<lparr>artwork_id = 2\<rparr>] []
     \<and> searchResults overlapping_searches = results_for_lu
     \<and> searchResults overlapping_searches \<noteq> results_for_luba"
    by (simp add: overlapping_searches_def performSearch_begin_def performSearch_resume_def
          displaySearchResults_def set_status_def set_container_def bar_options_def
          initial_search_module_def results_for_lu_def results_for_luba_def
          minLength_of_def category_of_def js_trim_def js_whitespace_def Let_def)
  from concrete general show ?thesis by blast
qed

section \<open>Properties of the favorites store\<close>

lemma prop_roundtrip: "property (JSON_parse (JSON_stringify obj)) key = property obj key"
  by (simp add: property_def JSON_parse_def JSON_stringify_def split: option.splits js_value.splits)

lemma parse_stringify_parse: "JSON_parse (JSON_stringify (JSON_parse j)) = JSON_parse j"
  by (rule ext) (simp add: JSON_parse_def JSON_stringify_def split: option.splits)

lemma prop_new_entry_id: "property (new_entry item now) ''id'' = property item ''id''"
  by (simp add: new_entry_def property_def map_add_def split: option.splits)

lemma getFavorites_roundtrip:
  "map (\<lambda>e. JSON_parse (JSON_stringify e)) es = es" if "getFavorites st type = Some es"
proof (cases "luba_my_heritage st")
  case Missing
  with that show ?thesis
    by (auto simp: getFavorites_def default_favorites_def split: if_splits)
next
  case Corrupt
  with that show ?thesis
    by (auto simp: getFavorites_def default_favorites_def split: if_splits)
next
  case (Stored f)
  with that obtain js where "f type = Some js" and es: "es = map JSON_parse js"
    by (auto simp: getFavorites_def)
  show ?thesis unfolding es by (simp add: parse_stringify_parse)
qed

lemma addFavorite_present:
  "isFavorite type (property item ''id'') st = Inr True \<Longrightarrow>
   addFavorite type item now st = (Inr False, st)"
  by (auto simp: isFavorite_def addFavorite_def member_at_def Let_def
           split: option.splits member.splits if_splits)

lemma addFavorite_absent:
  assumes "\<not> quota_exceeded st"
    and "isFavorite type (property item ''id'') st = Inr False"
  shows "fst (addFavorite type item now st) = Inr True"
    and "entries_of (snd (addFavorite type item now st)) type
           = entries_of st type @ [JSON_parse (JSON_stringify (new_entry item now))]"
proof -
  show "fst (addFavorite type item now st) = Inr True"
    using assms(2)
    by (auto simp: isFavorite_def addFavorite_def member_at_def Let_def
             split: option.splits member.splits if_splits)
  show "entries_of (snd (addFavorite type item now st)) type
          = entries_of st type @ [JSON_parse (JSON_stringify (new_entry item now))]"
  proof (cases "getFavorites st type")
    case None
    with assms have "type \<notin> set object_prototype_names"
      by (auto simp: isFavorite_def member_at_def split: if_splits)
    with None assms(1) show ?thesis
      by (simp add: addFavorite_def Let_def saveToStorage_def entries_of_def getFavorites_def
            member_at_def)
  next
    case (Some es)
    from getFavorites_roundtrip [OF Some]
    have rt: "map (JSON_parse \<circ> JSON_stringify) es = es" by (simp add: comp_def)
    from Some assms show ?thesis
      by (simp add: addFavorite_def Let_def saveToStorage_def entries_of_def getFavorites_def
            isFavorite_def member_at_def rt)
  qed
qed

lemma getFavorites_after_add:
  assumes "\<not> quota_exceeded st"
    and "isFavorite type (property item ''id'') st = Inr False"
  shows "getFavorites (snd (addFavorite type item now st)) type
           = Some (entries_of (snd (addFavorite type item now st)) type)"
proof (cases "getFavorites st type")
  case None
  with assms have "type \<notin> set object_prototype_names"
    by (auto simp: isFavorite_def member_at_def split: if_splits)
  with None assms(1) show ?thesis
    by (simp add: addFavorite_def Let_def saveToStorage_def entries_of_def getFavorites_def
          member_at_def)
next
  case (Some es)
  with assms show ?thesis
    by (simp add: addFavorite_def Let_def saveToStorage_def entries_of_def getFavorites_def
          isFavorite_def member_at_def)
qed

text \<open>
  Claim C10, as the code has it. Provided the write to local storage succeeds and
  \<open>isFavorite\<close> answers false for the item's id (so the type is a key of the stored
  favorites object, or at least not the name of an inherited property such as
  \<open>constructor\<close>, for which the code throws): the call returns true and appends one
  entry, with that id, to the entries stored under the type; a following call with an
  item of the same id returns false and leaves the store as it is, and so does every
  later call made while an entry with that id is stored.
\<close>

theorem addFavorite_idempotent_when_saved:
  assumes "\<not> quota_exceeded st"
    and "isFavorite type (property item ''id'') st = Inr False"
    and "property item' ''id'' = property item ''id''"
  shows "fst (addFavorite type item now st) = Inr True
     \<and> (\<exists>entry. entries_of (snd (addFavorite type item now st)) type
                    = entries_of st type @ [entry]
                  \<and> property entry ''id'' = property item ''id'')
     \<and> addFavorite type item' now' (snd (addFavorite type item now st))
         = (Inr False, snd (addFavorite type item now st))
     \<and> (isFavorite type (property item' ''id'') later = Inr True
          \<longrightarrow> addFavorite type item' now' later = (Inr False, later))"
proof -
  let ?st = "snd (addFavorite type item now st)"
  let ?entry = "JSON_parse (JSON_stringify (new_entry item now))"
  note added = addFavorite_absent [OF assms(1) assms(2), of now]
  note own = getFavorites_after_add [OF assms(1) assms(2), of now]
  have id: "property ?entry ''id'' = property item ''id''"
    by (simp add: prop_roundtrip prop_new_entry_id)
  have "isFavorite type (property item' ''id'') ?st = Inr True"
    by (simp add: isFavorite_def member_at_def own added(2) id assms(3))
  then have again: "addFavorite type item' now' ?st = (Inr False, ?st)"
    by (rule addFavorite_present)
  from added id again show ?thesis
    by (auto intro: addFavorite_present)
qed

theorem addFavorite_idempotent_when_saved_witness:
  "\<not> quota_exceeded empty_storage
   \<and> isFavorite ''artifacts'' (property card_436 ''id'') empty_storage = Inr False
   \<and> fst (addFavorite ''artifacts'' card_436 ''2026-01-01'' empty_storage) = Inr True
   \<and> addFavorite ''artifacts'' card_436 ''2026-01-02''
        (snd (addFavorite ''artifacts'' card_436 ''2026-01-01'' empty_storage))
       = (Inr False, snd (addFavorite ''artifacts'' card_436 ''2026-01-01'' empty_storage))
   \<and> length (entries_of (snd (addFavorite ''artifacts'' card_436 ''2026-01-01'' empty_storage))
               ''artifacts'') = 1"
proof -
  have q: "\<not> quota_exceeded empty_storage"
    by (simp add: empty_storage_def)
  have fresh: "isFavorite ''artifacts'' (property card_436 ''id'') empty_storage = Inr False"
    by (simp add: isFavorite_def member_at_def getFavorites_def empty_storage_def
          default_favorites_def)
  have none: "entries_of empty_storage ''artifacts'' = []"
    by (simp add: entries_of_def getFavorites_def empty_storage_def default_favorites_def)
  from addFavorite_idempotent_when_saved
         [OF q fresh refl, where now = "''2026-01-01''" and now' = "''2026-01-02''"
            and later = empty_storage]
       q fresh none
  show ?thesis by auto
qed

text \<open>
  Claim C10 as stated fails when the browser refuses the write: the first call returns
  true and stores nothing, and the second call, with the same item, returns true again.
\<close>

theorem addFavorite_unsaved_is_added_twice:
  "fst (addFavorite ''artifacts'' card_436 ''2026-01-01'' full_storage) = Inr True
   \<and> snd (addFavorite ''artifacts'' card_436 ''2026-01-01'' full_storage) = full_storage
   \<and> entries_of (snd (addFavorite ''artifacts'' card_436 ''2026-01-01'' full_storage))
        ''artifacts'' = []
   \<and> fst (addFavorite ''artifacts'' card_436 ''2026-01-02''
             (snd (addFavorite ''artifacts'' card_436 ''2026-01-01'' full_storage))) = Inr True"
proof -
  have first: "addFavorite ''artifacts'' card_436 ''2026-01-01'' full_storage
                 = (Inr True, full_storage)"
    by (simp add: addFavorite_def Let_def getFavorites_def full_storage_def member_at_def
          default_favorites_def saveToStorage_def)
  have second: "addFavorite ''artifacts'' card_436 ''2026-01-02'' full_storage
                  = (Inr True, full_storage)"
    by (simp add: addFavorite_def Let_def getFavorites_def full_storage_def member_at_def
          default_favorites_def saveToStorage_def)
  have none: "entries_of full_storage ''artifacts'' = []"
    by (simp add: entries_of_def getFavorites_def full_storage_def default_favorites_def)
  show ?thesis by (simp add: first second none)
qed

text \<open>
  A type that names an inherited property: the call throws and the store is untouched,
  also when the write would succeed.
\<close>

lemma addFavorite_inherited_type_throws:
  "addFavorite ''constructor'' card_436 ''2026-01-01'' empty_storage
     = (Inl not_a_function, empty_storage)
   \<and> isFavorite ''constructor'' (property card_436 ''id'') empty_storage = Inl not_a_function"
  by (simp add: addFavorite_def isFavorite_def Let_def getFavorites_def empty_storage_def
        member_at_def default_favorites_def object_prototype_names_def)

end
